theory Spec2Isabelle
  imports Main "HOL-Library.Sublist"
begin

section \<open>JavaScript values\<close>

text \<open>
  The Firebase channel plugin is TypeScript running on Node. Everything it receives from
  the network goes through \<^verbatim>\<open>JSON.parse\<close> and is used as an untyped value
  (\<^verbatim>\<open>any\<close>, or a cast), so the model keeps the values dynamic: a \<open>json\<close> is a parsed
  JSON value, and \<open>json option\<close> is a JavaScript value that may be \<^verbatim>\<open>undefined\<close>
  (\<open>None\<close>).

  Strings are \<open>string\<close>; a \<open>char\<close> stands for a UTF-16 code unit below 256. Numbers
  are integers (a fractional or very large number is floating point and outside the
  model). An object keeps its members in source order.
\<close>

datatype json =
    JNull
  | JBool bool
  | JNum int
  | JStr string
  | JArr "json list"
  | JObj "(string \<times> json) list"

text \<open>ToBoolean: what \<^verbatim>\<open>if (v)\<close>, \<^verbatim>\<open>!v\<close> and \<^verbatim>\<open>v || w\<close> test.\<close>

fun truthy :: "json option \<Rightarrow> bool" where
  "truthy None = False"
| "truthy (Some JNull) = False"
| "truthy (Some (JBool b)) = b"
| "truthy (Some (JNum n)) = (n \<noteq> 0)"
| "truthy (Some (JStr s)) = (s \<noteq> [])"
| "truthy (Some (JArr xs)) = True"
| "truthy (Some (JObj kvs)) = True"

text \<open>
  \<^verbatim>\<open>v.k\<close> for a value \<open>v\<close> that is not \<^verbatim>\<open>null\<close>: the member of an object (the
  last one when a key is repeated, as \<^verbatim>\<open>JSON.parse\<close> keeps it), \<^verbatim>\<open>undefined\<close> on a
  primitive or an array (none of the keys the plugin reads is inherited from a
  prototype). On \<^verbatim>\<open>null\<close> the access throws; every call site where the source can reach
  it with \<^verbatim>\<open>null\<close> models the throw itself.
\<close>

fun get_prop :: "string \<Rightarrow> json \<Rightarrow> json option" where
  "get_prop k (JObj kvs) = map_of (rev kvs) k"
| "get_prop k v = None"

text \<open>\<^verbatim>\<open>v?.k\<close>: \<^verbatim>\<open>undefined\<close> when \<open>v\<close> is \<^verbatim>\<open>undefined\<close> or \<^verbatim>\<open>null\<close>.\<close>

fun oprop :: "string \<Rightarrow> json option \<Rightarrow> json option" where
  "oprop k None = None"
| "oprop k (Some JNull) = None"
| "oprop k (Some v) = get_prop k v"

text \<open>
  \<^verbatim>\<open>v?.[0]\<close>: the first element of an array, the member \<^verbatim>\<open>"0"\<close> of an object, the first
  code unit of a non-empty string.
\<close>

fun oindex0 :: "json option \<Rightarrow> json option" where
  "oindex0 None = None"
| "oindex0 (Some JNull) = None"
| "oindex0 (Some (JArr [])) = None"
| "oindex0 (Some (JArr (x # xs))) = Some x"
| "oindex0 (Some (JObj kvs)) = map_of (rev kvs) ''0''"
| "oindex0 (Some (JStr [])) = None"
| "oindex0 (Some (JStr (c # cs))) = Some (JStr [c])"
| "oindex0 (Some v) = None"

subsection \<open>ToString\<close>

definition digit_char :: "nat \<Rightarrow> char" where
  "digit_char d = char_of (48 + d)"

function string_of_nat :: "nat \<Rightarrow> string" where
  "string_of_nat n = (if n < 10 then [digit_char n] else string_of_nat (n div 10) @ [digit_char (n mod 10)])"
  by pat_completeness auto
termination
  by (relation "measure id") auto

definition string_of_int :: "int \<Rightarrow> string" where
  "string_of_int i = (if i < 0 then CHR ''-'' # string_of_nat (nat (- i)) else string_of_nat (nat i))"

fun intersperse :: "string \<Rightarrow> string list \<Rightarrow> string" where
  "intersperse sep [] = []"
| "intersperse sep [x] = x"
| "intersperse sep (x # y # ys) = x @ sep @ intersperse sep (y # ys)"

text \<open>
  \<^verbatim>\<open>String(v)\<close>, which is also what a template literal and \<^verbatim>\<open>content += v\<close> apply to
  a value that is not a string. An array joins its elements with a comma, \<^verbatim>\<open>null\<close>
  elements as the empty string.
\<close>

fun to_string :: "json \<Rightarrow> string" where
  "to_string JNull = ''null''"
| "to_string (JBool b) = (if b then ''true'' else ''false'')"
| "to_string (JNum n) = string_of_int n"
| "to_string (JStr s) = s"
| "to_string (JArr xs) =
     intersperse '','' (map (\<lambda>x. case x of JNull \<Rightarrow> [] | _ \<Rightarrow> to_string x) xs)"
| "to_string (JObj kvs) = ''[object Object]''"

definition String_of :: "json option \<Rightarrow> string" where
  "String_of v = (case v of None \<Rightarrow> ''undefined'' | Some x \<Rightarrow> to_string x)"

subsection \<open>String methods\<close>

text \<open>
  \<^verbatim>\<open>toLowerCase\<close> on code units below 256: the ASCII capitals and the Latin-1 capitals
  \<open>0xC0\<close> to \<open>0xDE\<close> (but the multiplication sign \<open>0xD7\<close>) move up by 32.
\<close>

definition lower_char :: "char \<Rightarrow> char" where
  "lower_char c =
     (let n = of_char c :: nat in
      if (65 \<le> n \<and> n \<le> 90) \<or> (192 \<le> n \<and> n \<le> 222 \<and> n \<noteq> 215) then char_of (n + 32) else c)"

definition toLowerCase :: "string \<Rightarrow> string" where
  "toLowerCase s = map lower_char s"

definition startsWith :: "string \<Rightarrow> string \<Rightarrow> bool" where
  "startsWith s p = (take (length p) s = p)"

text \<open>\<^verbatim>\<open>s.includes(p)\<close>: \<open>p\<close> starts at some position of \<open>s\<close>.\<close>

fun includes_str :: "string \<Rightarrow> string \<Rightarrow> bool" where
  "includes_str [] p = (p = [])"
| "includes_str (c # cs) p = (startsWith (c # cs) p \<or> includes_str cs p)"

text \<open>
  White space that \<^verbatim>\<open>trim\<close> removes, among the code units below 256: tab, line feed,
  vertical tab, form feed, carriage return, space and the no-break space.
\<close>

definition is_space :: "char \<Rightarrow> bool" where
  "is_space c = (let n = of_char c :: nat in (9 \<le> n \<and> n \<le> 13) \<or> n = 32 \<or> n = 160)"

definition trim :: "string \<Rightarrow> string" where
  "trim s = rev (dropWhile is_space (rev (dropWhile is_space s)))"

subsection \<open>Exceptions\<close>

text \<open>
  A thrown value is an \<^verbatim>\<open>Error\<close> instance with its message, or some other value. The
  catch blocks of the plugin read it with
  \<^verbatim>\<open>error instanceof Error ? error.message : String(error)\<close>.
\<close>

datatype js_exn = Error_instance string | Thrown_value "json option"

fun exn_message :: "js_exn \<Rightarrow> string" where
  "exn_message (Error_instance m) = m"
| "exn_message (Thrown_value v) = String_of v"

section \<open>respond.ts: the error classifier\<close>

text \<open>
  \<^verbatim>\<open>isBillingError(errorMessage?: string)\<close> (respond.ts, lines 52 to 62). The parameter is declared a string, but one
  caller passes a member of a parsed error body; on a truthy value that is not a string
  \<^verbatim>\<open>errorMessage.toLowerCase\<close> is not a function and the call throws a TypeError (the
  message below is the one Node prints).
\<close>

definition isBillingError :: "json option \<Rightarrow> js_exn + bool" where
  "isBillingError errorMessage =
     (if \<not> truthy errorMessage then Inr False
      else case errorMessage of
        Some (JStr s) \<Rightarrow>
          (let lower = toLowerCase s in
           Inr (includes_str lower ''402'' \<or>
                includes_str lower ''insufficient credits'' \<or>
                includes_str lower ''insufficient_credits'' \<or>
                includes_str lower ''billing'' \<or>
                includes_str lower ''payment required''))
      | _ \<Rightarrow> Inl (Error_instance ''errorMessage.toLowerCase is not a function''))"

section \<open>The platform\<close>

text \<open>
  \<^verbatim>\<open>JSON.parse\<close> and the UTF-8 decoding of a \<^verbatim>\<open>Buffer\<close> belong to the platform, not to
  the plugin; the plugin's functions take them as a parameter. \<open>JSON_parse\<close> answers the
  value, or the message of the SyntaxError it throws.
\<close>

record platform =
  JSON_parse :: "string \<Rightarrow> string + json"
  utf8_toString :: "string \<Rightarrow> string"

subsection \<open>A reader for JSON text\<close>

text \<open>
  To run the plugin on concrete streams, a reader for the JSON grammar with integer
  numbers and the single-character escapes (a number with a fraction or an exponent and a
  \<^verbatim>\<open>\u\<close> escape have no value in \<open>json\<close>; the reader refuses them). The recursion is
  bounded by a fuel that the length of the text covers.
\<close>

definition json_ws :: "char \<Rightarrow> bool" where
  "json_ws c = (c = CHR '' '' \<or> c = CHR 0x09 \<or> c = CHR 0x0A \<or> c = CHR 0x0D)"

definition skip_ws :: "string \<Rightarrow> string" where
  "skip_ws s = dropWhile json_ws s"

definition unescape :: "char \<Rightarrow> char option" where
  "unescape e =
     (if e = CHR 0x22 then Some (CHR 0x22)
      else if e = CHR 0x5C then Some (CHR 0x5C)
      else if e = CHR ''/'' then Some (CHR ''/'')
      else if e = CHR ''b'' then Some (CHR 0x08)
      else if e = CHR ''f'' then Some (CHR 0x0C)
      else if e = CHR ''n'' then Some (CHR 0x0A)
      else if e = CHR ''r'' then Some (CHR 0x0D)
      else if e = CHR ''t'' then Some (CHR 0x09)
      else None)"

text \<open>The characters of a string literal after its opening quote, up to the closing one.\<close>

fun read_string :: "bool \<Rightarrow> string \<Rightarrow> string \<Rightarrow> (string \<times> string) option" where
  "read_string esc acc [] = None"
| "read_string True acc (c # cs) =
     (case unescape c of None \<Rightarrow> None | Some x \<Rightarrow> read_string False (x # acc) cs)"
| "read_string False acc (c # cs) =
     (if c = CHR 0x22 then Some (rev acc, cs)
      else if c = CHR 0x5C then read_string True acc cs
      else if (of_char c :: nat) < 32 then None
      else read_string False (c # acc) cs)"

definition is_digit :: "char \<Rightarrow> bool" where
  "is_digit c = (48 \<le> (of_char c :: nat) \<and> (of_char c :: nat) \<le> 57)"

definition digits_value :: "string \<Rightarrow> nat" where
  "digits_value ds = foldl (\<lambda>n c. 10 * n + (of_char c - 48)) 0 ds"

text \<open>An integer: an optional minus sign, then \<open>0\<close> or digits that do not start with \<open>0\<close>.\<close>

definition read_number :: "string \<Rightarrow> (json \<times> string) option" where
  "read_number s =
     (let neg = (s \<noteq> [] \<and> hd s = CHR ''-'');
          t = (if neg then tl s else s);
          ds = takeWhile is_digit t;
          r = dropWhile is_digit t
      in if ds = [] then None
         else if 1 < length ds \<and> hd ds = CHR ''0'' then None
         else if r \<noteq> [] \<and> (hd r = CHR ''.'' \<or> hd r = CHR ''e'' \<or> hd r = CHR ''E'') then None
         else Some (JNum (if neg then - int (digits_value ds) else int (digits_value ds)), r))"

fun read_value :: "nat \<Rightarrow> string \<Rightarrow> (json \<times> string) option"
  and read_elements :: "nat \<Rightarrow> json list \<Rightarrow> string \<Rightarrow> (json \<times> string) option"
  and read_members :: "nat \<Rightarrow> (string \<times> json) list \<Rightarrow> string \<Rightarrow> (json \<times> string) option"
where
  "read_value 0 s = None"
| "read_value (Suc n) s =
     (case skip_ws s of
        [] \<Rightarrow> None
      | c # cs \<Rightarrow>
          if c = CHR ''{'' then
            (case skip_ws cs of
               [] \<Rightarrow> None
             | d # ds \<Rightarrow> if d = CHR ''}'' then Some (JObj [], ds) else read_members n [] (d # ds))
          else if c = CHR ''['' then
            (case skip_ws cs of
               [] \<Rightarrow> None
             | d # ds \<Rightarrow> if d = CHR '']'' then Some (JArr [], ds) else read_elements n [] (d # ds))
          else if c = CHR 0x22 then
            (case read_string False [] cs of None \<Rightarrow> None | Some (str, r) \<Rightarrow> Some (JStr str, r))
          else if take 4 (c # cs) = ''true'' then Some (JBool True, drop 4 (c # cs))
          else if take 5 (c # cs) = ''false'' then Some (JBool False, drop 5 (c # cs))
          else if take 4 (c # cs) = ''null'' then Some (JNull, drop 4 (c # cs))
          else read_number (c # cs))"
| "read_elements 0 acc s = None"
| "read_elements (Suc n) acc s =
     (case read_value n s of
        None \<Rightarrow> None
      | Some (v, r) \<Rightarrow>
          (case skip_ws r of
             [] \<Rightarrow> None
           | c # cs \<Rightarrow>
               if c = CHR '','' then read_elements n (acc @ [v]) cs
               else if c = CHR '']'' then Some (JArr (acc @ [v]), cs)
               else None))"
| "read_members 0 acc s = None"
| "read_members (Suc n) acc s =
     (case skip_ws s of
        [] \<Rightarrow> None
      | q # qs \<Rightarrow>
          if q = CHR 0x22 then
            (case read_string False [] qs of
               None \<Rightarrow> None
             | Some (k, r) \<Rightarrow>
                 (case skip_ws r of
                    [] \<Rightarrow> None
                  | c # cs \<Rightarrow>
                      if c = CHR '':'' then
                        (case read_value n cs of
                           None \<Rightarrow> None
                         | Some (v, r2) \<Rightarrow>
                             (case skip_ws r2 of
                                [] \<Rightarrow> None
                              | e # es \<Rightarrow>
                                  if e = CHR '','' then read_members n (acc @ [(k, v)]) es
                                  else if e = CHR ''}'' then Some (JObj (acc @ [(k, v)]), es)
                                  else None))
                      else None))
          else None)"

definition read_json :: "string \<Rightarrow> string + json" where
  "read_json s =
     (case read_value (Suc (length s)) s of
        None \<Rightarrow> Inl ''Unexpected token in JSON''
      | Some (v, r) \<Rightarrow> if skip_ws r = [] then Inr v else Inl ''Unexpected token in JSON'')"

text \<open>The platform on ASCII text: a byte is a character.\<close>

definition ascii_platform :: platform where
  "ascii_platform = \<lparr>JSON_parse = read_json, utf8_toString = (\<lambda>bytes. bytes)\<rparr>"

section \<open>llm-client.ts: the streaming completion client\<close>

subsection \<open>Configuration and the outside world\<close>

text \<open>The environment variables the modules read when they are loaded.\<close>

record env =
  env_LLM_PROXY_URL :: "string option"
  env_LLM_PROXY_API_KEY :: "string option"
  env_APP_SERVER_URL :: "string option"
  env_VM_INTERNAL_SECRET :: "string option"

text \<open>\<^verbatim>\<open>process.env.X || fallback\<close>: an unset or empty variable gives the fallback.\<close>

definition or_default :: "string option \<Rightarrow> string \<Rightarrow> string" where
  "or_default v d = (case v of None \<Rightarrow> d | Some s \<Rightarrow> if s = [] then d else s)"

definition LLM_PROXY_URL :: "env \<Rightarrow> string" where
  "LLM_PROXY_URL e = or_default (env_LLM_PROXY_URL e) ''http://localhost:3001''"

definition APP_SERVER_URL :: "env \<Rightarrow> string" where
  "APP_SERVER_URL e = or_default (env_APP_SERVER_URL e) ''http://localhost:3000''"

text \<open>A template literal prints an unset variable as \<^verbatim>\<open>undefined\<close>.\<close>

definition Bearer :: "string option \<Rightarrow> string" where
  "Bearer key = ''Bearer '' @ (case key of None \<Rightarrow> ''undefined'' | Some k \<Rightarrow> k)"

text \<open>
  The body of a 2xx response is read chunk by chunk; \<open>stream_chunks\<close> are the texts the
  streaming \<^verbatim>\<open>TextDecoder\<close> hands over, in order, and the stream then ends or a read
  throws. (A stream that never ends is not modelled: the client sets no timeout and would
  not return.)
\<close>

datatype stream_end = Stream_done | Stream_throws js_exn

datatype body_stream = Body_stream (stream_chunks: "string list") (stream_ending: stream_end)

text \<open>
  What \<^verbatim>\<open>fetch\<close> resolves to: the status, what \<^verbatim>\<open>response.json()\<close> and
  \<^verbatim>\<open>response.text()\<close> give when awaited, and the body stream (\<open>None\<close>: no body).
\<close>

record http_response =
  status :: int
  json_result :: "js_exn + json"
  text_result :: "js_exn + string"
  resp_body :: "body_stream option"

definition response_ok :: "http_response \<Rightarrow> bool" where
  "response_ok r = (200 \<le> status r \<and> status r \<le> 299)"

record llm_body =
  model :: string
  max_tokens :: int
  messages :: "json list"
  stream :: bool

record llm_fetch =
  llm_url :: string
  llm_authorization :: string
  llm_request :: llm_body

subsection \<open>Results\<close>

record usage =
  inputTokens :: "json option"
  outputTokens :: "json option"

text \<open>
  \<^verbatim>\<open>LlmResult\<close>. The \<^verbatim>\<open>error\<close> of a failure is declared a string; it is a \<open>json\<close> here
  because the client stores the member \<^verbatim>\<open>error.message\<close> of a parsed body unchecked.
\<close>

datatype LlmResult =
    LlmResponse (res_content: string) (res_usage: "usage option")
  | LlmErrorResponse (res_error: json) (res_is_billing: bool) (res_statusCode: "int option")

record LlmRequestOptions =
  opt_model :: "string option"
  opt_maxTokens :: "int option"
  opt_messages :: "json list"

subsection \<open>parseSSEStream\<close>

record sse_state =
  acc_content :: string
  acc_inputTokens :: "json option"
  acc_outputTokens :: "json option"

text \<open>\<^verbatim>\<open>buffer.split("\n")\<close>: at least one piece, the last one the text after the last line feed.\<close>

fun split_lines :: "string \<Rightarrow> string list" where
  "split_lines [] = [[]]"
| "split_lines (c # cs) =
     (if c = CHR 0x0A then [] # split_lines cs
      else (case split_lines cs of [] \<Rightarrow> [[c]] | l # ls \<Rightarrow> (c # l) # ls))"

text \<open>
  The body of the \<^verbatim>\<open>try\<close> for one complete line, on a parsed frame \<open>data\<close> that is not
  \<^verbatim>\<open>null\<close>: six tests in the source's order, each on the state the previous one left.
\<close>

definition apply_frame :: "json \<Rightarrow> sse_state \<Rightarrow> sse_state" where
  "apply_frame data s0 =
     (let typ = get_prop ''type'' data;
          delta_text = oprop ''text'' (get_prop ''delta'' data);
          usage = get_prop ''usage'' data;
          message_usage = oprop ''usage'' (get_prop ''message'' data);
          choice_content = oprop ''content'' (oprop ''delta'' (oindex0 (get_prop ''choices'' data)));
          s1 = (if typ = Some (JStr ''content_block_delta'') \<and> truthy delta_text
                then s0\<lparr>acc_content := acc_content s0 @ String_of delta_text\<rparr> else s0);
          s2 = (if truthy delta_text \<and> \<not> truthy typ
                then s1\<lparr>acc_content := acc_content s1 @ String_of delta_text\<rparr> else s1);
          s3 = (if typ = Some (JStr ''message_delta'') \<and> truthy usage
                then s2\<lparr>acc_outputTokens := oprop ''output_tokens'' usage\<rparr> else s2);
          s4 = (if typ = Some (JStr ''message_start'') \<and> truthy message_usage
                then s3\<lparr>acc_inputTokens := oprop ''input_tokens'' message_usage\<rparr> else s3);
          s5 = (if truthy choice_content
                then s4\<lparr>acc_content := acc_content s4 @ String_of choice_content\<rparr> else s4);
          s6 = (if truthy usage
                then s5\<lparr>acc_inputTokens := oprop ''prompt_tokens'' usage,
                        acc_outputTokens := oprop ''completion_tokens'' usage\<rparr> else s5)
      in s6)"

text \<open>
  One line of the loop. A line that is not a \<^verbatim>\<open>data: \<close> line or is the sentinel is
  skipped; so is one whose payload does not parse, or parses to \<^verbatim>\<open>null\<close> (the first
  member access throws inside the \<^verbatim>\<open>try\<close>, before anything was changed).
\<close>

definition process_line :: "platform \<Rightarrow> string \<Rightarrow> sse_state \<Rightarrow> sse_state" where
  "process_line P line s =
     (if \<not> startsWith line ''data: '' then s
      else if line = ''data: [DONE]'' then s
      else case JSON_parse P (drop 6 line) of
             Inl syntax_error \<Rightarrow> s
           | Inr data \<Rightarrow> (case data of JNull \<Rightarrow> s | _ \<Rightarrow> apply_frame data s))"

text \<open>
  The \<^verbatim>\<open>while\<close> loop over the reads: append the chunk to the buffer, split, keep the
  last piece as the new buffer and process the others.
\<close>

fun read_loop :: "platform \<Rightarrow> string list \<Rightarrow> string \<Rightarrow> sse_state \<Rightarrow> string \<times> sse_state" where
  "read_loop P [] buffer s = (buffer, s)"
| "read_loop P (chunk # rest) buffer s =
     (let lines = split_lines (buffer @ chunk)
      in read_loop P rest (last lines) (fold (process_line P) (butlast lines) s))"

text \<open>
  After the loop, what is left in the buffer gets one parse attempt, with two tests only
  (neither looks at \<^verbatim>\<open>type\<close> or at usage).
\<close>

definition process_tail :: "platform \<Rightarrow> string \<Rightarrow> sse_state \<Rightarrow> sse_state" where
  "process_tail P buffer s =
     (if startsWith buffer ''data: '' \<and> buffer \<noteq> ''data: [DONE]'' then
        (case JSON_parse P (drop 6 buffer) of
           Inl syntax_error \<Rightarrow> s
         | Inr data \<Rightarrow>
             (case data of
                JNull \<Rightarrow> s
              | _ \<Rightarrow>
                (let delta_text = oprop ''text'' (get_prop ''delta'' data);
                     choice_content =
                       oprop ''content'' (oprop ''delta'' (oindex0 (get_prop ''choices'' data)));
                     s1 = (if truthy delta_text
                           then s\<lparr>acc_content := acc_content s @ String_of delta_text\<rparr> else s);
                     s2 = (if truthy choice_content
                           then s1\<lparr>acc_content := acc_content s1 @ String_of choice_content\<rparr>
                           else s1)
                 in s2)))
      else s)"

definition initial_state :: sse_state where
  "initial_state = \<lparr>acc_content = [], acc_inputTokens = None, acc_outputTokens = None\<rparr>"

text \<open>
  The result object: \<^verbatim>\<open>usage\<close> is present when one of the two counters is not
  \<^verbatim>\<open>undefined\<close>.
\<close>

definition finish :: "sse_state \<Rightarrow> LlmResult" where
  "finish s =
     LlmResponse (acc_content s)
       (if acc_inputTokens s = None \<and> acc_outputTokens s = None then None
        else Some \<lparr>inputTokens = acc_inputTokens s, outputTokens = acc_outputTokens s\<rparr>)"

text \<open>
  \<^verbatim>\<open>parseSSEStream\<close>. The function has a \<^verbatim>\<open>finally\<close> but no \<^verbatim>\<open>catch\<close>: a read that
  throws leaves through the function, whatever was accumulated.
\<close>

definition parseSSEStream :: "platform \<Rightarrow> http_response \<Rightarrow> js_exn + LlmResult" where
  "parseSSEStream P response =
     (case resp_body response of
        None \<Rightarrow> Inr (LlmErrorResponse (JStr ''No response body'') False None)
      | Some b \<Rightarrow>
          (case stream_ending b of
             Stream_throws x \<Rightarrow> Inl x
           | Stream_done \<Rightarrow>
               (case read_loop P (stream_chunks b) [] initial_state of
                  (buffer, s) \<Rightarrow> Inr (finish (process_tail P buffer s)))))"

subsection \<open>callLlmProxy\<close>

text \<open>The world answers each outgoing request: \<^verbatim>\<open>fetch\<close> throws or resolves.\<close>

definition llm_call :: "env \<Rightarrow> LlmRequestOptions \<Rightarrow> llm_fetch" where
  "llm_call e options =
     \<lparr>llm_url = LLM_PROXY_URL e @ ''/v1/responses'',
      llm_authorization = Bearer (env_LLM_PROXY_API_KEY e),
      llm_request =
        \<lparr>model = (case opt_model options of None \<Rightarrow> ''claude-haiku-4-5-20251001'' | Some m \<Rightarrow> m),
         max_tokens = (case opt_maxTokens options of None \<Rightarrow> 4096 | Some n \<Rightarrow> n),
         messages = opt_messages options,
         stream = True\<rparr>\<rparr>"

text \<open>
  The non-2xx branch: the message is the body's \<^verbatim>\<open>error.message\<close> when the body
  parses and that member is truthy (a \<^verbatim>\<open>null\<close> body throws inside the inner \<^verbatim>\<open>try\<close>
  and is ignored like a parse error), else the default.
\<close>

definition error_message_of :: "http_response \<Rightarrow> json" where
  "error_message_of response =
     (let fallback = JStr (''LLM request failed: '' @ string_of_int (status response))
      in case json_result response of
           Inl e \<Rightarrow> fallback
         | Inr errorBody \<Rightarrow>
             (case errorBody of
                JNull \<Rightarrow> fallback
              | _ \<Rightarrow>
                (case oprop ''message'' (get_prop ''error'' errorBody) of
                   None \<Rightarrow> fallback
                 | Some m \<Rightarrow> if truthy (Some m) then m else fallback)))"

text \<open>The body of the outer \<^verbatim>\<open>try\<close>, after \<^verbatim>\<open>fetch\<close> resolved.\<close>

definition on_response :: "platform \<Rightarrow> http_response \<Rightarrow> js_exn + LlmResult" where
  "on_response P response =
     (if \<not> response_ok response then
        (let errorMessage = error_message_of response
         in if status response = 402
            then Inr (LlmErrorResponse errorMessage True (Some (status response)))
            else (case isBillingError (Some errorMessage) of
                    Inl x \<Rightarrow> Inl x
                  | Inr b \<Rightarrow> Inr (LlmErrorResponse errorMessage b (Some (status response)))))
      else parseSSEStream P response)"

text \<open>The \<^verbatim>\<open>catch\<close> of \<^verbatim>\<open>callLlmProxy\<close>.\<close>

definition on_exception :: "js_exn \<Rightarrow> js_exn + LlmResult" where
  "on_exception x =
     (let errorMessage = exn_message x
      in case isBillingError (Some (JStr errorMessage)) of
           Inl y \<Rightarrow> Inl y
         | Inr b \<Rightarrow> Inr (LlmErrorResponse (JStr errorMessage) b None))"

text \<open>
  \<^verbatim>\<open>callLlmProxy\<close>: one request to the proxy; the answer is the result the caller gets,
  or the exception that leaves the function.
\<close>

definition callLlmProxy ::
  "platform \<Rightarrow> env \<Rightarrow> (llm_fetch \<Rightarrow> js_exn + http_response) \<Rightarrow> LlmRequestOptions \<Rightarrow> js_exn + LlmResult"
where
  "callLlmProxy P e llm_proxy options =
     (case (case llm_proxy (llm_call e options) of
              Inl x \<Rightarrow> Inl x
            | Inr response \<Rightarrow> on_response P response) of
        Inl x \<Rightarrow> on_exception x
      | Inr result \<Rightarrow> Inr result)"

section \<open>respond.ts: the delivery client\<close>

record metadata =
  md_errorType :: "string option"
  md_action :: "string option"
  md_model :: "string option"
  md_tokens :: "json option"

record VmResponseRequest =
  vr_messageId :: string
  vr_content :: string
  vr_metadata :: "metadata option"

record app_fetch =
  app_url :: string
  app_authorization :: string
  app_body :: VmResponseRequest

definition no_metadata :: metadata where
  "no_metadata = \<lparr>md_errorType = None, md_action = None, md_model = None, md_tokens = None\<rparr>"

text \<open>The request \<^verbatim>\<open>sendResponse\<close> sends.\<close>

definition delivery_call :: "env \<Rightarrow> string \<Rightarrow> string \<Rightarrow> metadata option \<Rightarrow> app_fetch" where
  "delivery_call e messageId content metadata =
     \<lparr>app_url = APP_SERVER_URL e @ ''/api/response'',
      app_authorization = Bearer (env_VM_INTERNAL_SECRET e),
      app_body = \<lparr>vr_messageId = messageId, vr_content = content, vr_metadata = metadata\<rparr>\<rparr>"

text \<open>
  \<^verbatim>\<open>sendResponse\<close>: one POST to the application backend. The answer is the request that
  was sent and how the call ended: \<open>Inr ()\<close> when it returns, \<open>Inl\<close> the exception it
  throws. Reading \<^verbatim>\<open>status\<close> of a \<^verbatim>\<open>null\<close> acknowledgement throws a TypeError.
\<close>

definition sendResponse ::
  "env \<Rightarrow> (app_fetch \<Rightarrow> js_exn + http_response) \<Rightarrow> string \<Rightarrow> string \<Rightarrow> metadata option
     \<Rightarrow> app_fetch \<times> (js_exn + unit)"
where
  "sendResponse e app_server messageId content metadata =
     (let call = delivery_call e messageId content metadata
      in (call,
          case app_server call of
            Inl x \<Rightarrow> Inl x
          | Inr response \<Rightarrow>
              if \<not> response_ok response then
                (let errorText = (case text_result response of Inl x \<Rightarrow> ''unknown error'' | Inr t \<Rightarrow> t)
                 in Inl (Error_instance
                      (''Failed to send response to App Server: '' @ string_of_int (status response)
                         @ '' - '' @ errorText)))
              else
                (case json_result response of
                   Inl x \<Rightarrow> Inl x
                 | Inr result \<Rightarrow>
                     (case result of
                        JNull \<Rightarrow>
                          Inl (Error_instance ''Cannot read properties of null (reading 'status')'')
                      | _ \<Rightarrow>
                          if get_prop ''status'' result = Some (JStr ''saved'') then Inr ()
                          else Inl (Error_instance
                                 (''Unexpected response status: ''
                                    @ String_of (get_prop ''status'' result)))))))"

definition sendBillingErrorResponse ::
  "env \<Rightarrow> (app_fetch \<Rightarrow> js_exn + http_response) \<Rightarrow> string \<Rightarrow> app_fetch \<times> (js_exn + unit)"
where
  "sendBillingErrorResponse e app_server messageId =
     sendResponse e app_server messageId
       (''You'' @ [CHR 0x27] @ ''ve run out of credits! Tap below to purchase more.'')
       (Some (no_metadata\<lparr>md_errorType := Some ''billing'', md_action := Some ''purchase_credits''\<rparr>))"

definition sendErrorResponse ::
  "env \<Rightarrow> (app_fetch \<Rightarrow> js_exn + http_response) \<Rightarrow> string \<Rightarrow> string option
     \<Rightarrow> app_fetch \<times> (js_exn + unit)"
where
  "sendErrorResponse e app_server messageId userMessage =
     sendResponse e app_server messageId
       (case userMessage of
          None \<Rightarrow> ''Sorry, something went wrong. Please try again.''
        | Some m \<Rightarrow> m)
       (Some (no_metadata\<lparr>md_errorType := Some ''error''\<rparr>))"

section \<open>monitor.ts: the webhook handler\<close>

text \<open>
  The handler that calls the streaming client; in this snapshot it is the third document
  of src/extensions/firebase/src/respond.ts (lines 264 to 466).
\<close>

subsection \<open>The outside world and the effects on it\<close>

record world =
  llm_proxy :: "llm_fetch \<Rightarrow> js_exn + http_response"
  app_server :: "app_fetch \<Rightarrow> js_exn + http_response"

text \<open>
  What the handler and its background task do to the outside, in the order they do it:
  the handler starts reading the body, \<^verbatim>\<open>req.destroy()\<close> destroys the request (and
  with it the socket the response would be written to), \<^verbatim>\<open>sendJsonResponse\<close> writes
  a status and a JSON body, the client calls the proxy, the delivery client calls the
  application backend. (Console output is left out.)
\<close>

datatype effect =
    Body_read
  | Request_destroyed
  | Reply int json
  | Llm_call llm_fetch
  | Delivery app_fetch

subsection \<open>readJsonBody\<close>

text \<open>
  The request emits \<^verbatim>\<open>data\<close> events with the chunks of its body (a \<open>char\<close> is a byte
  here), then \<^verbatim>\<open>end\<close> or \<^verbatim>\<open>error\<close>. The promise resolves once: \<open>doResolve\<close> removes
  the listeners, so the events after the first resolution are not seen. The answer is
  the value the promise resolves to, with the effects of the read: on a body over the
  cap the \<^verbatim>\<open>data\<close> listener resolves and then calls \<^verbatim>\<open>req.destroy()\<close>, before the
  awaiting handler continues. \<open>None\<close>: the events ran out before \<^verbatim>\<open>end\<close> or
  \<^verbatim>\<open>error\<close> and the promise is still pending.
\<close>

datatype req_event = Data string | End | Error_event string

fun readJsonBody_loop ::
  "platform \<Rightarrow> nat \<Rightarrow> req_event list \<Rightarrow> string list \<Rightarrow> nat
     \<Rightarrow> ((string + json) \<times> effect list) option"
where
  "readJsonBody_loop P maxBytes [] chunks total_bytes = None"
| "readJsonBody_loop P maxBytes (Data chunk # evs) chunks total_bytes =
     (if total_bytes + length chunk > maxBytes
      then Some (Inl ''payload too large'', [Request_destroyed])
      else readJsonBody_loop P maxBytes evs (chunks @ [chunk]) (total_bytes + length chunk))"
| "readJsonBody_loop P maxBytes (End # evs) chunks total_bytes =
     (let raw = utf8_toString P (concat chunks)
      in if trim raw = [] then Some (Inl ''empty payload'', [])
         else Some (JSON_parse P raw, []))"
| "readJsonBody_loop P maxBytes (Error_event m # evs) chunks total_bytes = Some (Inl m, [])"

definition readJsonBody ::
  "platform \<Rightarrow> req_event list \<Rightarrow> nat \<Rightarrow> ((string + json) \<times> effect list) option"
where
  "readJsonBody P evs maxBytes = readJsonBody_loop P maxBytes evs [] 0"

definition MAX_PAYLOAD_BYTES :: nat where
  "MAX_PAYLOAD_BYTES = 1024 * 1024"

subsection \<open>processMessage\<close>

text \<open>
  The trigger after validation: \<open>messageId\<close> and \<open>text\<close> are strings by then;
  \<open>conversationHistory\<close> is whatever the body carried.
\<close>

record VmTriggerRequest =
  tr_messageId :: string
  tr_text :: string
  tr_conversationHistory :: "json option"

text \<open>
  \<^verbatim>\<open>[...(conversationHistory || [])]\<close>: the elements of an array, the characters of a
  string; any other truthy value is not iterable and the spread throws a TypeError (the
  text of its message is the engine's).
\<close>

definition spread_or_empty :: "json option \<Rightarrow> js_exn + json list" where
  "spread_or_empty v =
     (if \<not> truthy v then Inr []
      else case v of
             Some (JArr xs) \<Rightarrow> Inr xs
           | Some (JStr s) \<Rightarrow> Inr (map (\<lambda>c. JStr [c]) s)
           | _ \<Rightarrow> Inl (Error_instance ''conversationHistory is not iterable''))"

text \<open>What \<^verbatim>\<open>processMessage\<close> passes to the client: the history, then the new user turn.\<close>

definition build_options :: "json list \<Rightarrow> string \<Rightarrow> LlmRequestOptions" where
  "build_options history text_in =
     \<lparr>opt_model = None, opt_maxTokens = None,
      opt_messages = history @ [JObj [(''role'', JStr ''user''), (''content'', JStr text_in)]]\<rparr>"

definition processMessage ::
  "platform \<Rightarrow> env \<Rightarrow> world \<Rightarrow> VmTriggerRequest \<Rightarrow> effect list \<times> (js_exn + unit)"
where
  "processMessage P e W request =
     (case spread_or_empty (tr_conversationHistory request) of
        Inl x \<Rightarrow> ([], Inl x)
      | Inr history \<Rightarrow>
          (let options = build_options history (tr_text request);
               asked = Llm_call (llm_call e options)
           in case callLlmProxy P e (llm_proxy W) options of
                Inl x \<Rightarrow> ([asked], Inl x)
              | Inr result \<Rightarrow>
                  (case result of
                     LlmErrorResponse err billing code \<Rightarrow>
                       (case (if billing
                              then sendBillingErrorResponse e (app_server W) (tr_messageId request)
                              else sendErrorResponse e (app_server W) (tr_messageId request) None) of
                          (sent, ended) \<Rightarrow> ([asked, Delivery sent], ended))
                   | LlmResponse content usage \<Rightarrow>
                       (case sendResponse e (app_server W) (tr_messageId request) content
                               (Some (no_metadata
                                  \<lparr>md_model := Some ''claude-sonnet-4-20250514'',
                                   md_tokens := (case usage of None \<Rightarrow> None | Some u \<Rightarrow> outputTokens u)\<rparr>)) of
                          (sent, ended) \<Rightarrow> ([asked, Delivery sent], ended)))))"

subsection \<open>handleFirebaseWebhookRequest\<close>

text \<open>
  The request as the handler sees it. \<open>req_pathname\<close> is the path \<^verbatim>\<open>new URL(...)\<close>
  computes from the request line and the Host header, or what the constructor throws.
\<close>

record http_request =
  req_method :: string
  req_pathname :: "js_exn + string"
  req_authorization :: "string option"
  req_events :: "req_event list"

text \<open>
  How the handler's promise ends: resolved with \<open>handled\<close>, rejected, or never settled
  (the body never finished).
\<close>

datatype outcome = Returned bool | Threw js_exn | Pending

definition error_body :: "string \<Rightarrow> json" where
  "error_body m = JObj [(''error'', JStr m)]"

definition is_string :: "json option \<Rightarrow> bool" where
  "is_string v = (case v of Some (JStr s) \<Rightarrow> True | _ \<Rightarrow> False)"

definition string_value :: "json option \<Rightarrow> string" where
  "string_value v = (case v of Some (JStr s) \<Rightarrow> s | _ \<Rightarrow> [])"

text \<open>
  The part after the body was parsed. \<^verbatim>\<open>body.messageId\<close> on a \<^verbatim>\<open>null\<close> body throws
  a TypeError, which rejects the handler's promise. On a valid body the 200 is written
  first; the background task's effects follow, and its exception, if any, is caught and
  logged.
\<close>

definition on_body :: "platform \<Rightarrow> env \<Rightarrow> world \<Rightarrow> json \<Rightarrow> effect list \<times> outcome" where
  "on_body P e W body =
     (case body of
        JNull \<Rightarrow> ([], Threw (Error_instance ''Cannot read properties of null (reading 'messageId')''))
      | _ \<Rightarrow>
          if \<not> (truthy (get_prop ''messageId'' body) \<and> is_string (get_prop ''messageId'' body))
          then ([Reply 400 (error_body ''Missing or invalid messageId'')], Returned True)
          else if \<not> (truthy (get_prop ''text'' body) \<and> is_string (get_prop ''text'' body))
          then ([Reply 400 (error_body ''Missing or invalid text'')], Returned True)
          else
            (case processMessage P e W
                    \<lparr>tr_messageId = string_value (get_prop ''messageId'' body),
                     tr_text = string_value (get_prop ''text'' body),
                     tr_conversationHistory = get_prop ''conversationHistory'' body\<rparr> of
               (background, ended) \<Rightarrow>
                 (Reply 200 (JObj [(''status'', JStr ''processing'')]) # background, Returned True)))"

definition handleFirebaseWebhookRequest ::
  "platform \<Rightarrow> env \<Rightarrow> world \<Rightarrow> http_request \<Rightarrow> effect list \<times> outcome"
where
  "handleFirebaseWebhookRequest P e W req =
     (case req_pathname req of
        Inl x \<Rightarrow> ([], Threw x)
      | Inr pathname \<Rightarrow>
          if \<not> (req_method req = ''POST'' \<and> pathname = ''/api/message'') then ([], Returned False)
          else
            (case env_VM_INTERNAL_SECRET e of
               None \<Rightarrow> ([Reply 500 (error_body ''Server misconfigured'')], Returned True)
             | Some secret \<Rightarrow>
                 if secret = [] then ([Reply 500 (error_body ''Server misconfigured'')], Returned True)
                 else if req_authorization req = Some (''Bearer '' @ secret) then
                   (case readJsonBody P (req_events req) MAX_PAYLOAD_BYTES of
                      None \<Rightarrow> ([Body_read], Pending)
                    | Some (Inl err, during) \<Rightarrow>
                        (Body_read # during @ [Reply 400 (error_body err)], Returned True)
                    | Some (Inr body, during) \<Rightarrow>
                        (case on_body P e W body of (fx, out) \<Rightarrow> (Body_read # during @ fx, out)))
                 else ([Reply 401 (error_body ''Unauthorized'')], Returned True)))"

section \<open>Observations and sample inputs\<close>

text \<open>The delivery calls among the effects, in order.\<close>

fun deliveries :: "effect list \<Rightarrow> app_fetch list" where
  "deliveries [] = []"
| "deliveries (Delivery d # fx) = d # deliveries fx"
| "deliveries (other # fx) = deliveries fx"

text \<open>
  What reaches the caller of the webhook: the first response written, unless the request
  was destroyed before (Node's \<^verbatim>\<open>req.destroy()\<close> destroys the connection's socket,
  and what is written to the response afterwards is not sent).
\<close>

fun client_receives :: "effect list \<Rightarrow> (int \<times> json) option" where
  "client_receives [] = None"
| "client_receives (Request_destroyed # fx) = None"
| "client_receives (Reply code answer # fx) = Some (code, answer)"
| "client_receives (other # fx) = client_receives fx"

text \<open>The classifier on a message string, as a predicate.\<close>

definition ErrorClassifier :: "string \<Rightarrow> bool" where
  "ErrorClassifier m = (isBillingError (Some (JStr m)) = Inr True)"

text \<open>
  A response of the given status whose body arrives in the given chunks, as the client
  sees it on ASCII text: \<^verbatim>\<open>json()\<close> parses the whole body, \<^verbatim>\<open>text()\<close> returns it.
\<close>

definition http_reply :: "int \<Rightarrow> string list \<Rightarrow> http_response" where
  "http_reply code cs =
     \<lparr>status = code,
      json_result = (case read_json (concat cs) of Inl m \<Rightarrow> Inl (Error_instance m) | Inr v \<Rightarrow> Inr v),
      text_result = Inr (concat cs),
      resp_body = Some (Body_stream cs Stream_done)\<rparr>"

text \<open>The environment test/integration.test.ts sets up, and its mock application server.\<close>

definition test_env :: env where
  "test_env =
     \<lparr>env_LLM_PROXY_URL = Some ''http://localhost:3003'',
      env_LLM_PROXY_API_KEY = Some ''pxy_test'',
      env_APP_SERVER_URL = Some ''http://localhost:3002'',
      env_VM_INTERNAL_SECRET = Some ''sec_test_integration''\<rparr>"

definition saving_app_server :: "app_fetch \<Rightarrow> js_exn + http_response" where
  \<open>saving_app_server call = Inr (http_reply 200 [''{"status":"saved"}''])\<close>

text \<open>An authenticated POST to the webhook whose body arrives in the given chunks.\<close>

definition test_request :: "string list \<Rightarrow> http_request" where
  "test_request cs =
     \<lparr>req_method = ''POST'',
      req_pathname = Inr ''/api/message'',
      req_authorization = Some ''Bearer sec_test_integration'',
      req_events = map Data cs @ [End]\<rparr>"

text \<open>
  The spec's DeliveryPayload for a CompletionOutcome: the generated text with the model
  and token metadata for a success, the purchase prompt for a billing failure, the apology
  for any other failure.
\<close>

definition DeliveryPayload_of :: "string \<Rightarrow> LlmResult \<Rightarrow> VmResponseRequest" where
  "DeliveryPayload_of correlationId outcome =
     (case outcome of
        LlmResponse generated u \<Rightarrow>
          \<lparr>vr_messageId = correlationId, vr_content = generated,
           vr_metadata = Some \<lparr>md_errorType = None, md_action = None,
                               md_model = Some ''claude-sonnet-4-20250514'',
                               md_tokens = (case u of None \<Rightarrow> None | Some x \<Rightarrow> outputTokens x)\<rparr>\<rparr>
      | LlmErrorResponse m billing code \<Rightarrow>
          if billing then
            \<lparr>vr_messageId = correlationId,
             vr_content = ''You'' @ [CHR 0x27] @ ''ve run out of credits! Tap below to purchase more.'',
             vr_metadata = Some \<lparr>md_errorType = Some ''billing'', md_action = Some ''purchase_credits'',
                                 md_model = None, md_tokens = None\<rparr>\<rparr>
          else
            \<lparr>vr_messageId = correlationId,
             vr_content = ''Sorry, something went wrong. Please try again.'',
             vr_metadata = Some \<lparr>md_errorType = Some ''error'', md_action = None,
                                 md_model = None, md_tokens = None\<rparr>\<rparr>)"

text \<open>A world whose proxy streams nothing but the sentinel, and one that streams dialect B.\<close>

definition silent_world :: world where
  "silent_world =
     \<lparr>llm_proxy = (\<lambda>call. Inr (http_reply 200 [''data: [DONE]\<newline>\<newline>''])),
      app_server = saving_app_server\<rparr>"

definition dialect_B_world :: world where
  \<open>dialect_B_world =
     \<lparr>llm_proxy = (\<lambda>call. Inr (http_reply 200
        [''data: {"choices":[{"delta":{"content":"Hi"}}]}\<newline>\<newline>'',
         ''data: {"choices":[{"delta":{"content":" there"}}],"usage":{"prompt_tokens":3,"completion_tokens":2}}\<newline>\<newline>'',
         ''data: [DONE]\<newline>\<newline>''])),
      app_server = saving_app_server\<rparr>\<close>

text \<open>The trigger of test/integration.test.ts, after validation.\<close>

definition test_trigger :: VmTriggerRequest where
  "test_trigger = \<lparr>tr_messageId = ''test4'', tr_text = ''Hello AI'', tr_conversationHistory = None\<rparr>"

text \<open>Options that leave the model and the token budget to their defaults.\<close>

definition no_options :: LlmRequestOptions where
  "no_options = \<lparr>opt_model = None, opt_maxTokens = None, opt_messages = []\<rparr>"

section \<open>Properties\<close>

subsection \<open>String methods\<close>

lemma startsWith_prefix: "startsWith s p = prefix p s"
  unfolding startsWith_def prefix_def
  by (metis append_eq_conv_conj append_take_drop_id)

lemma includes_str_sublist: "includes_str s p = sublist p s"
proof (induction s)
  case Nil
  show ?case by simp
next
  case (Cons c cs)
  show ?case
    by (simp add: Cons.IH startsWith_prefix sublist_Cons_right)
qed

text \<open>
  C5. The classifier is a function of the message alone. On a message string it answers
  (never throws), and the answer is true exactly when the lower-cased message contains
  one of \<open>402\<close>, \<open>insufficient credits\<close>, \<open>insufficient_credits\<close>, \<open>billing\<close>,
  \<open>payment required\<close> as a contiguous substring.
\<close>

theorem isBillingError_substrings:
  "isBillingError (Some (JStr msg)) =
     Inr (sublist ''402'' (toLowerCase msg) \<or>
          sublist ''insufficient credits'' (toLowerCase msg) \<or>
          sublist ''insufficient_credits'' (toLowerCase msg) \<or>
          sublist ''billing'' (toLowerCase msg) \<or>
          sublist ''payment required'' (toLowerCase msg))"
proof (cases "msg = []")
  case True
  then show ?thesis
    by (simp add: isBillingError_def toLowerCase_def)
next
  case False
  then show ?thesis
    by (simp add: isBillingError_def Let_def includes_str_sublist)
qed

subsection \<open>The stream parser\<close>

declare string_of_nat.simps [simp del]

lemma split_lines_nonempty: "split_lines s \<noteq> []"
  by (induction s) (auto split: list.splits)

lemma split_lines_append:
  "split_lines (a @ b) = butlast (split_lines a) @ split_lines (last (split_lines a) @ b)"
proof (induction a)
  case Nil
  show ?case by simp
next
  case (Cons c a)
  show ?case
  proof (cases "c = CHR 0x0A")
    case True
    then show ?thesis
      using Cons.IH split_lines_nonempty [of a] by simp
  next
    case False
    obtain l ls where a: "split_lines a = l # ls"
      using split_lines_nonempty [of a] by (cases "split_lines a") auto
    show ?thesis
    proof (cases ls)
      case Nil
      with a False Cons.IH show ?thesis
        by (simp split: list.splits)
    next
      case (Cons m ms)
      with a False Cons.IH show ?thesis
        by (simp split: list.splits)
    qed
  qed
qed

lemma split_lines_no_newline:
  "CHR 0x0A \<notin> set s \<Longrightarrow> split_lines s = [s]"
  by (induction s) auto

lemma last_split_lines_no_newline:
  "CHR 0x0A \<notin> set (last (split_lines s))"
proof (induction s)
  case Nil
  show ?case by simp
next
  case (Cons c s)
  then show ?case
    using split_lines_nonempty [of s]
    by (cases "split_lines s") (auto split: if_splits)
qed

lemma read_loop_concat:
  "CHR 0x0A \<notin> set buffer \<Longrightarrow>
   read_loop P cs buffer s =
     (last (split_lines (buffer @ concat cs)),
      fold (process_line P) (butlast (split_lines (buffer @ concat cs))) s)"
proof (induction cs arbitrary: buffer s)
  case Nil
  then show ?case by (simp add: split_lines_no_newline)
next
  case (Cons c cs)
  have sp: "split_lines ((buffer @ c) @ concat cs) =
      butlast (split_lines (buffer @ c)) @ split_lines (last (split_lines (buffer @ c)) @ concat cs)"
    by (rule split_lines_append)
  have ih: "read_loop P cs (last (split_lines (buffer @ c))) t =
     (last (split_lines (last (split_lines (buffer @ c)) @ concat cs)),
      fold (process_line P) (butlast (split_lines (last (split_lines (buffer @ c)) @ concat cs))) t)" for t
    by (rule Cons.IH) (rule last_split_lines_no_newline)
  show ?case
    using sp split_lines_nonempty [of "last (split_lines (buffer @ c)) @ concat cs"]
    by (simp add: ih Let_def butlast_append)
qed


lemma parseSSEStream_concat:
  "parseSSEStream P (r\<lparr>resp_body := Some (Body_stream cs Stream_done)\<rparr>) =
   Inr (finish (process_tail P (last (split_lines (concat cs)))
          (fold (process_line P) (butlast (split_lines (concat cs))) initial_state)))"
  by (simp add: parseSSEStream_def read_loop_concat)

lemma message_delta_clears_usage:
  assumes "get_prop ''type'' data = Some (JStr ''message_delta'')"
    and "get_prop ''usage'' data = Some (JObj [(''output_tokens'', n)])"
  shows "acc_inputTokens (apply_frame data s) = None \<and> acc_outputTokens (apply_frame data s) = None"
  using assms by (simp add: apply_frame_def Let_def)

text \<open>
  C2. On the dialect-A stream of the claim (a \<^verbatim>\<open>message_start\<close> frame with
  \<open>input_tokens\<close> 10, two \<^verbatim>\<open>content_block_delta\<close> frames with the texts \<open>Hello\<close> and
  \<open> world\<close>, a \<^verbatim>\<open>message_delta\<close> frame with \<open>output_tokens\<close> 2, the sentinel) the
  parser returns the text \<open>Hello world\<close>, but no usage at all: the \<^verbatim>\<open>message_delta\<close>
  frame has a top-level \<^verbatim>\<open>usage\<close>, so the last test of the loop body overwrites both
  counters with that object's \<^verbatim>\<open>prompt_tokens\<close> and \<^verbatim>\<open>completion_tokens\<close>, which it
  does not have (lemma \<open>message_delta_clears_usage\<close>).
\<close>

theorem dialect_A_usage_lost:
  \<open>parseSSEStream ascii_platform
     (r\<lparr>resp_body := Some (Body_stream
        [''data: {"type":"message_start","message":{"usage":{"input_tokens":10}}}\<newline>\<newline>'',
         ''data: {"type":"content_block_delta","delta":{"text":"Hello"}}\<newline>\<newline>'',
         ''data: {"type":"content_block_delta","delta":{"text":" world"}}\<newline>\<newline>'',
         ''data: {"type":"message_delta","usage":{"output_tokens":2}}\<newline>\<newline>'',
         ''data: [DONE]\<newline>\<newline>''] Stream_done)\<rparr>)
   = Inr (LlmResponse ''Hello world'' None)\<close>
  unfolding parseSSEStream_concat by code_simp

lemma split_lines_line:
  "CHR 0x0A \<notin> set l \<Longrightarrow> split_lines (l @ CHR 0x0A # rest) = l # split_lines rest"
  using split_lines_nonempty [of rest]
  by (induction l) (auto split: list.splits)

lemma split_lines_terminated:
  assumes "\<forall>l\<in>set ls. CHR 0x0A \<notin> set l" and "CHR 0x0A \<notin> set rest"
  shows "split_lines (concat (map (\<lambda>l. l @ [CHR 0x0A]) ls) @ rest) = ls @ [rest]"
  using assms
  by (induction ls) (simp_all add: split_lines_no_newline split_lines_line)

lemma text_frame_contributes_once:
  assumes "JSON_parse P payload = Inr data" and "data \<noteq> JNull" and "payload \<noteq> ''[DONE]''"
    and "oprop ''text'' (get_prop ''delta'' data) = Some (JStr t)" and "t \<noteq> []"
    and "get_prop ''type'' data = Some (JStr ''content_block_delta'') \<or>
         \<not> truthy (get_prop ''type'' data)"
    and "\<not> truthy (oprop ''content'' (oprop ''delta'' (oindex0 (get_prop ''choices'' data))))"
  shows "acc_content (process_line P (''data: '' @ payload) s) = acc_content s @ t"
proof -
  have "acc_content (apply_frame data s) = acc_content s @ t"
    using assms(4-7) by (auto simp: apply_frame_def Let_def String_of_def)
  with assms(1-3) show ?thesis
    by (cases data) (simp_all add: process_line_def startsWith_def)
qed

text \<open>
  C4. Let the text of the stream be the complete lines \<open>ls\<close>, each ended by a line
  feed, followed by an unterminated remainder. However that text is cut into chunks, the
  parser returns the state in which every complete line was processed exactly once, in
  order, and the remainder was given its one attempt at the end: a frame split across
  chunks is held in the buffer until its line feed arrives. So two chunkings of the same
  text give the same result. Processing a \<^verbatim>\<open>data: \<close> line whose payload parses to a
  frame with a non-empty \<open>delta.text\<close> (typed \<^verbatim>\<open>content_block_delta\<close> or untyped, and
  without dialect-B content) appends that text to the content, once.
\<close>

theorem parseSSEStream_rechunk:
  "(concat cs = concat (map (\<lambda>l. l @ [CHR 0x0A]) ls) @ rest \<and>
    (\<forall>l\<in>set ls. CHR 0x0A \<notin> set l) \<and> CHR 0x0A \<notin> set rest \<longrightarrow>
      parseSSEStream P (r\<lparr>resp_body := Some (Body_stream cs Stream_done)\<rparr>) =
        Inr (finish (process_tail P rest (fold (process_line P) ls initial_state)))) \<and>
   (concat cs = concat cs' \<longrightarrow>
      parseSSEStream P (r\<lparr>resp_body := Some (Body_stream cs Stream_done)\<rparr>) =
      parseSSEStream P (r\<lparr>resp_body := Some (Body_stream cs' Stream_done)\<rparr>)) \<and>
   (JSON_parse P payload = Inr data \<and> data \<noteq> JNull \<and> payload \<noteq> ''[DONE]'' \<and>
    oprop ''text'' (get_prop ''delta'' data) = Some (JStr t) \<and> t \<noteq> [] \<and>
    (get_prop ''type'' data = Some (JStr ''content_block_delta'') \<or>
     \<not> truthy (get_prop ''type'' data)) \<and>
    \<not> truthy (oprop ''content'' (oprop ''delta'' (oindex0 (get_prop ''choices'' data)))) \<longrightarrow>
      acc_content (process_line P (''data: '' @ payload) s) = acc_content s @ t)"
proof (intro conjI impI)
  assume a: "concat cs = concat (map (\<lambda>l. l @ [CHR 0x0A]) ls) @ rest \<and>
    (\<forall>l\<in>set ls. CHR 0x0A \<notin> set l) \<and> CHR 0x0A \<notin> set rest"
  then have "split_lines (concat cs) = ls @ [rest]"
    by (simp add: split_lines_terminated)
  then show "parseSSEStream P (r\<lparr>resp_body := Some (Body_stream cs Stream_done)\<rparr>) =
        Inr (finish (process_tail P rest (fold (process_line P) ls initial_state)))"
    by (simp add: parseSSEStream_concat)
next
  assume "concat cs = concat cs'"
  then show "parseSSEStream P (r\<lparr>resp_body := Some (Body_stream cs Stream_done)\<rparr>) =
      parseSSEStream P (r\<lparr>resp_body := Some (Body_stream cs' Stream_done)\<rparr>)"
    by (simp add: parseSSEStream_concat)
next
  assume "JSON_parse P payload = Inr data \<and> data \<noteq> JNull \<and> payload \<noteq> ''[DONE]'' \<and>
    oprop ''text'' (get_prop ''delta'' data) = Some (JStr t) \<and> t \<noteq> [] \<and>
    (get_prop ''type'' data = Some (JStr ''content_block_delta'') \<or>
     \<not> truthy (get_prop ''type'' data)) \<and>
    \<not> truthy (oprop ''content'' (oprop ''delta'' (oindex0 (get_prop ''choices'' data))))"
  then show "acc_content (process_line P (''data: '' @ payload) s) = acc_content s @ t"
    by (intro text_frame_contributes_once [of P payload data t]) simp_all
qed

lemma parsed_ok_frame:
  \<open>read_json ''{"delta":{"text":"ok"}}'' = Inr (JObj [(''delta'', JObj [(''text'', JStr ''ok'')])])\<close>
  by code_simp

lemma one_frame_lines:
  \<open>finish (process_tail ascii_platform []
      (fold (process_line ascii_platform) [''data: {"delta":{"text":"ok"}}'', []] initial_state)) =
   LlmResponse ''ok'' None\<close>
  by code_simp

lemma two_frame_lines:
  \<open>finish (process_tail ascii_platform []
      (fold (process_line ascii_platform)
         [''data: {"delta":{"text":"a"}}'', [], ''data: {"delta":{"text":"ok"}}'', []]
         initial_state)) =
   LlmResponse ''aok'' None\<close>
  by code_simp

theorem parseSSEStream_rechunk_witness:
  \<open>parseSSEStream ascii_platform
     ((http_reply 200 [])\<lparr>resp_body := Some (Body_stream
         [''data: {"del'', ''ta":{"text":"ok"}}\<newline>\<newline>''] Stream_done)\<rparr>)
     = Inr (LlmResponse ''ok'' None) \<and>
   parseSSEStream ascii_platform
     ((http_reply 200 [])\<lparr>resp_body := Some (Body_stream
         [''data: {"delta":{"text":"a"}}\<newline>\<newline>data: {"del'',
          ''ta":{"text":"ok"}}\<newline>\<newline>''] Stream_done)\<rparr>)
     = Inr (LlmResponse ''aok'' None) \<and>
   parseSSEStream ascii_platform
     ((http_reply 200 [])\<lparr>resp_body := Some (Body_stream
         [''data: {"delta":{"text":"a"}}\<newline>'', ''\<newline>data: {"delta":{"te'',
          ''xt":"ok"}}'', ''\<newline>\<newline>''] Stream_done)\<rparr>)
     = Inr (LlmResponse ''aok'' None) \<and>
   acc_content (process_line ascii_platform ''data: {"delta":{"text":"ok"}}''
      (initial_state\<lparr>acc_content := ''a''\<rparr>)) = ''aok''\<close>
proof -
  have 1: \<open>parseSSEStream ascii_platform
     ((http_reply 200 [])\<lparr>resp_body := Some (Body_stream
         [''data: {"del'', ''ta":{"text":"ok"}}\<newline>\<newline>''] Stream_done)\<rparr>)
     = Inr (LlmResponse ''ok'' None)\<close>
    using parseSSEStream_rechunk [where P = ascii_platform and r = "http_reply 200 []"
        and cs = \<open>[''data: {"del'', ''ta":{"text":"ok"}}\<newline>\<newline>'']\<close>
        and ls = \<open>[''data: {"delta":{"text":"ok"}}'', []]\<close> and rest = "[]"]
    by (simp add: one_frame_lines del: fold.simps)
  have 2: \<open>parseSSEStream ascii_platform
     ((http_reply 200 [])\<lparr>resp_body := Some (Body_stream
         [''data: {"delta":{"text":"a"}}\<newline>\<newline>data: {"del'',
          ''ta":{"text":"ok"}}\<newline>\<newline>''] Stream_done)\<rparr>)
     = Inr (LlmResponse ''aok'' None)\<close>
    using parseSSEStream_rechunk [where P = ascii_platform and r = "http_reply 200 []"
        and cs = \<open>[''data: {"delta":{"text":"a"}}\<newline>\<newline>data: {"del'',
          ''ta":{"text":"ok"}}\<newline>\<newline>'']\<close>
        and ls = \<open>[''data: {"delta":{"text":"a"}}'', [], ''data: {"delta":{"text":"ok"}}'', []]\<close>
        and rest = "[]"]
    by (simp add: two_frame_lines del: fold.simps)
  have 3: \<open>parseSSEStream ascii_platform
     ((http_reply 200 [])\<lparr>resp_body := Some (Body_stream
         [''data: {"delta":{"text":"a"}}\<newline>'', ''\<newline>data: {"delta":{"te'',
          ''xt":"ok"}}'', ''\<newline>\<newline>''] Stream_done)\<rparr>)
     = Inr (LlmResponse ''aok'' None)\<close>
    using parseSSEStream_rechunk [where P = ascii_platform and r = "http_reply 200 []"
        and cs = \<open>[''data: {"delta":{"text":"a"}}\<newline>'', ''\<newline>data: {"delta":{"te'',
          ''xt":"ok"}}'', ''\<newline>\<newline>'']\<close>
        and cs' = \<open>[''data: {"delta":{"text":"a"}}\<newline>\<newline>data: {"del'',
          ''ta":{"text":"ok"}}\<newline>\<newline>'']\<close>] 2
    by simp
  have 4: \<open>acc_content (process_line ascii_platform ''data: {"delta":{"text":"ok"}}''
      (initial_state\<lparr>acc_content := ''a''\<rparr>)) = ''aok''\<close>
    using parseSSEStream_rechunk [where P = ascii_platform
        and payload = \<open>''{"delta":{"text":"ok"}}''\<close>
        and data = \<open>JObj [(''delta'', JObj [(''text'', JStr ''ok'')])]\<close> and t = "''ok''"
        and s = "initial_state\<lparr>acc_content := ''a''\<rparr>"]
    by (simp add: ascii_platform_def parsed_ok_frame)
  from 1 2 3 4 show ?thesis by simp
qed

subsection \<open>The completion client\<close>

lemma isBillingError_string: "isBillingError (Some (JStr m)) = Inr (ErrorClassifier m)"
  unfolding ErrorClassifier_def isBillingError_def
  by (cases "m = []") (auto simp: Let_def)

lemma on_exception_failure:
  "on_exception x = Inr (LlmErrorResponse (JStr (exn_message x)) (ErrorClassifier (exn_message x)) None)"
  by (simp add: on_exception_def Let_def isBillingError_string)

lemma callLlmProxy_returns: "\<exists>result. callLlmProxy P e proxy options = Inr result"
  by (simp add: callLlmProxy_def on_exception_failure split: sum.splits)

lemma callLlmProxy_fetch_throws:
  assumes "proxy (llm_call e options) = Inl x"
  shows "callLlmProxy P e proxy options =
           Inr (LlmErrorResponse (JStr (exn_message x)) (ErrorClassifier (exn_message x)) None)"
  using assms by (simp add: callLlmProxy_def on_exception_failure)

lemma callLlmProxy_read_throws:
  assumes "proxy (llm_call e options) = Inr response" and "response_ok response"
    and "resp_body response = Some b" and "stream_ending b = Stream_throws x"
  shows "callLlmProxy P e proxy options =
           Inr (LlmErrorResponse (JStr (exn_message x)) (ErrorClassifier (exn_message x)) None)"
  using assms
  by (simp add: callLlmProxy_def on_response_def parseSSEStream_def on_exception_failure)

lemma callLlmProxy_non_2xx:
  assumes "proxy (llm_call e options) = Inr response" and "\<not> response_ok response"
    and "error_message_of response = JStr m"
  shows "callLlmProxy P e proxy options =
           Inr (LlmErrorResponse (JStr m) (status response = 402 \<or> ErrorClassifier m)
                  (Some (status response)))"
  using assms
  by (simp add: callLlmProxy_def on_response_def Let_def isBillingError_string)

lemma error_message_fallback:
  assumes "\<And>errorBody. json_result response = Inr errorBody \<Longrightarrow>
             errorBody = JNull \<or> \<not> truthy (oprop ''message'' (get_prop ''error'' errorBody))"
  shows "error_message_of response = JStr (''LLM request failed: '' @ string_of_int (status response))"
proof (cases "json_result response")
  case (Inl x)
  then show ?thesis by (simp add: error_message_of_def)
next
  case (Inr errorBody)
  from assms [OF Inr] show ?thesis
    using Inr by (cases errorBody) (auto simp: error_message_of_def Let_def split: option.splits)
qed

lemma error_message_from_body:
  assumes "json_result response = Inr errorBody" and "errorBody \<noteq> JNull"
    and "oprop ''message'' (get_prop ''error'' errorBody) = Some (JStr m)" and "m \<noteq> []"
  shows "error_message_of response = JStr m"
  using assms by (cases errorBody) (simp_all add: error_message_of_def Let_def)


text \<open>
  What the client returns. It never throws: for every platform, environment, proxy and
  request it returns a result. A non-2xx response whose body parses to a value that
  carries a non-empty string \<^verbatim>\<open>error.message\<close> becomes a failure with that message; a
  non-2xx response whose body does not parse, is \<^verbatim>\<open>null\<close> or carries no truthy
  \<^verbatim>\<open>error.message\<close> becomes a failure with \<open>LLM request failed: <status>\<close>; either
  way it is classified billing exactly when the status is 402 or the classifier accepts
  the message, and it carries the status. An exception thrown by \<^verbatim>\<open>fetch\<close> or by a
  read of the stream becomes a failure with the exception's message, classified by the
  classifier, without a status.
\<close>

lemma callLlmProxy_outcomes:
  "(\<exists>result. callLlmProxy P e proxy options = Inr result) \<and>
   (proxy (llm_call e options) = Inr response \<and> \<not> response_ok response \<and>
    json_result response = Inr errorBody \<and> errorBody \<noteq> JNull \<and>
    oprop ''message'' (get_prop ''error'' errorBody) = Some (JStr m) \<and> m \<noteq> [] \<longrightarrow>
      callLlmProxy P e proxy options =
        Inr (LlmErrorResponse (JStr m) (status response = 402 \<or> ErrorClassifier m)
               (Some (status response)))) \<and>
   (proxy (llm_call e options) = Inr response \<and> \<not> response_ok response \<and>
    (\<forall>parsed. json_result response = Inr parsed \<longrightarrow>
       parsed = JNull \<or> \<not> truthy (oprop ''message'' (get_prop ''error'' parsed))) \<longrightarrow>
      callLlmProxy P e proxy options =
        Inr (LlmErrorResponse
               (JStr (''LLM request failed: '' @ string_of_int (status response)))
               (status response = 402 \<or>
                ErrorClassifier (''LLM request failed: '' @ string_of_int (status response)))
               (Some (status response)))) \<and>
   (proxy (llm_call e options) = Inl x \<longrightarrow>
      callLlmProxy P e proxy options =
        Inr (LlmErrorResponse (JStr (exn_message x)) (ErrorClassifier (exn_message x)) None)) \<and>
   (proxy (llm_call e options) = Inr response \<and> response_ok response \<and>
    resp_body response = Some b \<and> stream_ending b = Stream_throws x \<longrightarrow>
      callLlmProxy P e proxy options =
        Inr (LlmErrorResponse (JStr (exn_message x)) (ErrorClassifier (exn_message x)) None))"
proof (intro conjI impI)
  show "\<exists>result. callLlmProxy P e proxy options = Inr result"
    by (rule callLlmProxy_returns)
next
  assume a: "proxy (llm_call e options) = Inr response \<and> \<not> response_ok response \<and>
    json_result response = Inr errorBody \<and> errorBody \<noteq> JNull \<and>
    oprop ''message'' (get_prop ''error'' errorBody) = Some (JStr m) \<and> m \<noteq> []"
  then have "error_message_of response = JStr m"
    by (intro error_message_from_body [of response errorBody m]) simp_all
  with a show "callLlmProxy P e proxy options =
        Inr (LlmErrorResponse (JStr m) (status response = 402 \<or> ErrorClassifier m)
               (Some (status response)))"
    by (intro callLlmProxy_non_2xx) simp_all
next
  assume a: "proxy (llm_call e options) = Inr response \<and> \<not> response_ok response \<and>
    (\<forall>parsed. json_result response = Inr parsed \<longrightarrow>
       parsed = JNull \<or> \<not> truthy (oprop ''message'' (get_prop ''error'' parsed)))"
  then have "error_message_of response =
      JStr (''LLM request failed: '' @ string_of_int (status response))"
    by (intro error_message_fallback) blast
  with a show "callLlmProxy P e proxy options =
        Inr (LlmErrorResponse
               (JStr (''LLM request failed: '' @ string_of_int (status response)))
               (status response = 402 \<or>
                ErrorClassifier (''LLM request failed: '' @ string_of_int (status response)))
               (Some (status response)))"
    by (intro callLlmProxy_non_2xx) simp_all
next
  assume "proxy (llm_call e options) = Inl x"
  then show "callLlmProxy P e proxy options =
        Inr (LlmErrorResponse (JStr (exn_message x)) (ErrorClassifier (exn_message x)) None)"
    by (rule callLlmProxy_fetch_throws)
next
  assume "proxy (llm_call e options) = Inr response \<and> response_ok response \<and>
    resp_body response = Some b \<and> stream_ending b = Stream_throws x"
  then show "callLlmProxy P e proxy options =
        Inr (LlmErrorResponse (JStr (exn_message x)) (ErrorClassifier (exn_message x)) None)"
    by (intro callLlmProxy_read_throws [of proxy e options response b x]) simp_all
qed

lemma parsed_credits:
  \<open>read_json ''{"error":{"message":"Insufficient credits"}}'' =
     Inr (JObj [(''error'', JObj [(''message'', JStr ''Insufficient credits'')])])\<close>
  by code_simp

lemma classified_credits: "ErrorClassifier ''Insufficient credits''"
  unfolding ErrorClassifier_def by code_simp

lemma classified_fetch_failed: "\<not> ErrorClassifier ''fetch failed''"
  unfolding ErrorClassifier_def by code_simp

lemma callLlmProxy_outcomes_examples:
  \<open>callLlmProxy ascii_platform test_env
      (\<lambda>call. Inr (http_reply 500 [''{"error":{"message":"Insufficient credits"}}''])) no_options
     = Inr (LlmErrorResponse (JStr ''Insufficient credits'') True (Some 500)) \<and>
   callLlmProxy ascii_platform test_env (\<lambda>call. Inl (Error_instance ''fetch failed'')) no_options
     = Inr (LlmErrorResponse (JStr ''fetch failed'') False None) \<and>
   callLlmProxy ascii_platform test_env
      (\<lambda>call. Inr ((http_reply 200 [])\<lparr>resp_body := Some (Body_stream [''data: '']
           (Stream_throws (Error_instance ''fetch failed'')))\<rparr>)) no_options
     = Inr (LlmErrorResponse (JStr ''fetch failed'') False None)\<close>
proof -
  let ?r = \<open>http_reply 500 [''{"error":{"message":"Insufficient credits"}}'']\<close>
  let ?s = \<open>(http_reply 200 [])\<lparr>resp_body := Some (Body_stream [''data: '']
           (Stream_throws (Error_instance ''fetch failed'')))\<rparr>\<close>
  have 1: "callLlmProxy ascii_platform test_env (\<lambda>call. Inr ?r) no_options
     = Inr (LlmErrorResponse (JStr ''Insufficient credits'') True (Some 500))"
    using callLlmProxy_outcomes [of ascii_platform test_env "\<lambda>call. Inr ?r" no_options ?r
        \<open>JObj [(''error'', JObj [(''message'', JStr ''Insufficient credits'')])]\<close> "''Insufficient credits''"]
    by (simp add: http_reply_def response_ok_def parsed_credits classified_credits)
  have 2: "callLlmProxy ascii_platform test_env (\<lambda>call. Inl (Error_instance ''fetch failed'')) no_options
     = Inr (LlmErrorResponse (JStr ''fetch failed'') False None)"
    using callLlmProxy_outcomes [of ascii_platform test_env "\<lambda>call. Inl (Error_instance ''fetch failed'')"
        no_options _ _ _ "Error_instance ''fetch failed''"]
    by (simp add: classified_fetch_failed)
  have 3: "callLlmProxy ascii_platform test_env (\<lambda>call. Inr ?s) no_options
     = Inr (LlmErrorResponse (JStr ''fetch failed'') False None)"
    using callLlmProxy_outcomes [of ascii_platform test_env "\<lambda>call. Inr ?s"
        no_options ?s _ _ "Error_instance ''fetch failed''"
        \<open>Body_stream [''data: ''] (Stream_throws (Error_instance ''fetch failed''))\<close>]
    by (simp add: classified_fetch_failed http_reply_def response_ok_def)
  from 1 2 3 show ?thesis by simp
qed

lemma parsed_number_message:
  \<open>read_json ''{"error":{"message":42}}'' = Inr (JObj [(''error'', JObj [(''message'', JNum 42)])])\<close>
  by code_simp

lemma classified_type_error: "\<not> ErrorClassifier ''errorMessage.toLowerCase is not a function''"
  unfolding ErrorClassifier_def by code_simp

text \<open>
  With status 402 the classifier is not called, and a message that is not a string is
  returned as it is, with the status.
\<close>

lemma callLlmProxy_number_message_402:
  \<open>callLlmProxy ascii_platform test_env
      (\<lambda>call. Inr (http_reply 402 [''{"error":{"message":42}}''])) no_options
     = Inr (LlmErrorResponse (JNum 42) True (Some 402))\<close>
proof -
  have m: \<open>error_message_of (http_reply 402 [''{"error":{"message":42}}'']) = JNum 42\<close>
    by (simp add: error_message_of_def http_reply_def parsed_number_message)
  have n: \<open>\<not> response_ok (http_reply 402 [''{"error":{"message":42}}''])\<close>
    by (simp add: response_ok_def http_reply_def)
  have s: \<open>status (http_reply 402 [''{"error":{"message":42}}'']) = 402\<close>
    by (simp add: http_reply_def)
  show ?thesis
    by (simp add: callLlmProxy_def on_response_def Let_def m n s)
qed

text \<open>
  C3. The claim fails on a non-2xx response whose \<^verbatim>\<open>error.message\<close> is truthy but not a
  string, when the status is not 402. On status 500 with the body
  \<^verbatim>\<open>{"error":{"message":42}}\<close> the client takes 42 as the message; the classifier,
  called inside the object the client is about to return, throws a TypeError on the
  number; the outer \<^verbatim>\<open>catch\<close>, meant for transport errors, takes it. The failure
  returned carries the TypeError's message, which is neither the body's message nor
  \<open>LLM request failed: 500\<close>, and no status. (The client does not throw, here or
  anywhere: lemma \<open>callLlmProxy_returns\<close>.)
\<close>

theorem callLlmProxy_number_message:
  \<open>callLlmProxy ascii_platform test_env
      (\<lambda>call. Inr (http_reply 500 [''{"error":{"message":42}}''])) no_options
     = Inr (LlmErrorResponse (JStr ''errorMessage.toLowerCase is not a function'') False None)\<close>
proof -
  have m: \<open>error_message_of (http_reply 500 [''{"error":{"message":42}}'']) = JNum 42\<close>
    by (simp add: error_message_of_def http_reply_def parsed_number_message)
  have t: "isBillingError (Some (JNum 42)) =
      Inl (Error_instance ''errorMessage.toLowerCase is not a function'')"
    by (simp add: isBillingError_def)
  have n: \<open>\<not> response_ok (http_reply 500 [''{"error":{"message":42}}''])\<close>
    by (simp add: response_ok_def http_reply_def)
  have s: \<open>status (http_reply 500 [''{"error":{"message":42}}'']) = 500\<close>
    by (simp add: http_reply_def)
  show ?thesis
    by (simp add: callLlmProxy_def on_response_def Let_def m t n s on_exception_failure
        classified_type_error)
qed

subsection \<open>The delivery client\<close>






subsection \<open>The background task\<close>

lemma sendResponse_call:
  "fst (sendResponse e app messageId content metadata) = delivery_call e messageId content metadata"
  by (simp add: sendResponse_def Let_def)

lemma processMessage_effects:
  assumes "spread_or_empty (tr_conversationHistory request) = Inr history"
    and "callLlmProxy P e (llm_proxy W) (build_options history (tr_text request)) = Inr result"
  shows "fst (processMessage P e W request) =
           [Llm_call (llm_call e (build_options history (tr_text request))),
            Delivery \<lparr>app_url = APP_SERVER_URL e @ ''/api/response'',
                      app_authorization = Bearer (env_VM_INTERNAL_SECRET e),
                      app_body = DeliveryPayload_of (tr_messageId request) result\<rparr>]"
proof (cases result)
  case (LlmResponse generated u)
  with assms show ?thesis
    by (simp add: processMessage_def Let_def DeliveryPayload_of_def no_metadata_def
        split_beta sendResponse_call delivery_call_def)
next
  case (LlmErrorResponse m billing code)
  with assms show ?thesis
    by (simp add: processMessage_def Let_def DeliveryPayload_of_def no_metadata_def
        split_beta sendResponse_call delivery_call_def sendBillingErrorResponse_def
        sendErrorResponse_def)
qed

text \<open>
  C10. When the generation succeeds, the one delivery the task makes carries
  \<open>model = claude-sonnet-4-20250514\<close> and \<open>tokens\<close> equal to the outcome's \<open>outputTokens\<close>
  (absent when the outcome has no usage), whereas the request the task sent to the proxy
  named the client's default model \<open>claude-haiku-4-5-20251001\<close>.
\<close>

theorem success_metadata_names_fixed_model:
  assumes "spread_or_empty (tr_conversationHistory request) = Inr history"
    and "callLlmProxy P e (llm_proxy W) (build_options history (tr_text request)) = Inr (LlmResponse generated u)"
  shows "\<exists>asked sent.
           fst (processMessage P e W request) = [Llm_call asked, Delivery sent] \<and>
           model (llm_request asked) = ''claude-haiku-4-5-20251001'' \<and>
           vr_content (app_body sent) = generated \<and>
           vr_metadata (app_body sent) =
             Some \<lparr>md_errorType = None, md_action = None,
                   md_model = Some ''claude-sonnet-4-20250514'',
                   md_tokens = (case u of None \<Rightarrow> None | Some x \<Rightarrow> outputTokens x)\<rparr>"
  using processMessage_effects [OF assms]
  by (simp add: DeliveryPayload_of_def llm_call_def build_options_def)

lemma dialect_B_stream:
  \<open>parseSSEStream ascii_platform (http_reply 200
        [''data: {"choices":[{"delta":{"content":"Hi"}}]}\<newline>\<newline>'',
         ''data: {"choices":[{"delta":{"content":" there"}}],"usage":{"prompt_tokens":3,"completion_tokens":2}}\<newline>\<newline>'',
         ''data: [DONE]\<newline>\<newline>''])
   = Inr (LlmResponse ''Hi there'' (Some \<lparr>inputTokens = Some (JNum 3), outputTokens = Some (JNum 2)\<rparr>))\<close>
proof -
  have \<open>parseSSEStream ascii_platform ((http_reply 200 [])\<lparr>resp_body := Some (Body_stream
        [''data: {"choices":[{"delta":{"content":"Hi"}}]}\<newline>\<newline>'',
         ''data: {"choices":[{"delta":{"content":" there"}}],"usage":{"prompt_tokens":3,"completion_tokens":2}}\<newline>\<newline>'',
         ''data: [DONE]\<newline>\<newline>''] Stream_done)\<rparr>)
   = Inr (LlmResponse ''Hi there'' (Some \<lparr>inputTokens = Some (JNum 3), outputTokens = Some (JNum 2)\<rparr>))\<close>
    unfolding parseSSEStream_concat by code_simp
  then show ?thesis
    by (simp add: parseSSEStream_def http_reply_def)
qed

lemma callLlmProxy_2xx:
  assumes "proxy (llm_call e options) = Inr response" and "response_ok response"
    and "parseSSEStream P response = Inr result"
  shows "callLlmProxy P e proxy options = Inr result"
  using assms by (simp add: callLlmProxy_def on_response_def)

lemma dialect_B_outcome:
  "callLlmProxy ascii_platform test_env (llm_proxy dialect_B_world) options =
     Inr (LlmResponse ''Hi there'' (Some \<lparr>inputTokens = Some (JNum 3), outputTokens = Some (JNum 2)\<rparr>))"
  by (rule callLlmProxy_2xx [where response = "the_response" for the_response, OF _ _ dialect_B_stream])
     (simp_all add: dialect_B_world_def response_ok_def http_reply_def)

theorem success_metadata_names_fixed_model_witness:
  "\<exists>asked sent.
     fst (processMessage ascii_platform test_env dialect_B_world test_trigger) = [Llm_call asked, Delivery sent] \<and>
     model (llm_request asked) = ''claude-haiku-4-5-20251001'' \<and>
     vr_content (app_body sent) = ''Hi there'' \<and>
     vr_metadata (app_body sent) =
       Some \<lparr>md_errorType = None, md_action = None,
             md_model = Some ''claude-sonnet-4-20250514'', md_tokens = Some (JNum 2)\<rparr>"
proof -
  have h: "spread_or_empty (tr_conversationHistory test_trigger) = Inr []"
    by (simp add: spread_or_empty_def test_trigger_def)
  show ?thesis
    using success_metadata_names_fixed_model [OF h dialect_B_outcome]
    by simp
qed

subsection \<open>Reading the body\<close>

lemma readJsonBody_loop_too_large:
  assumes "total_bytes \<le> maxBytes" and "maxBytes < total_bytes + length (concat cs)"
  shows "readJsonBody_loop P maxBytes (map Data cs @ rest) chunks total_bytes =
           Some (Inl ''payload too large'', [Request_destroyed])"
  using assms
proof (induction cs arbitrary: chunks total_bytes)
  case Nil
  then show ?case by simp
next
  case (Cons c cs)
  show ?case
  proof (cases "maxBytes < total_bytes + length c")
    case True
    then show ?thesis by simp
  next
    case False
    with Cons.prems have "readJsonBody_loop P maxBytes (map Data cs @ rest) (chunks @ [c])
        (total_bytes + length c) = Some (Inl ''payload too large'', [Request_destroyed])"
      by (intro Cons.IH) simp_all
    with False show ?thesis by simp
  qed
qed

lemma readJsonBody_loop_within:
  assumes "total_bytes + length (concat cs) \<le> maxBytes"
  shows "readJsonBody_loop P maxBytes (map Data cs @ rest) chunks total_bytes =
           readJsonBody_loop P maxBytes rest (chunks @ cs) (total_bytes + length (concat cs))"
  using assms
proof (induction cs arbitrary: chunks total_bytes)
  case Nil
  then show ?case by simp
next
  case (Cons c cs)
  from Cons.prems have "readJsonBody_loop P maxBytes (map Data cs @ rest) (chunks @ [c])
      (total_bytes + length c) =
      readJsonBody_loop P maxBytes rest ((chunks @ [c]) @ cs) ((total_bytes + length c) + length (concat cs))"
    by (intro Cons.IH) simp
  with Cons.prems show ?case by (simp add: add.assoc)
qed

lemma readJsonBody_too_large:
  assumes "maxBytes < length (concat cs)"
  shows "readJsonBody P (map Data cs @ rest) maxBytes =
           Some (Inl ''payload too large'', [Request_destroyed])"
  unfolding readJsonBody_def using assms
  by (intro readJsonBody_loop_too_large) simp_all

lemma readJsonBody_complete:
  assumes "length (concat cs) \<le> maxBytes"
  shows "readJsonBody P (map Data cs @ End # rest) maxBytes =
           Some (if trim (utf8_toString P (concat cs)) = [] then Inl ''empty payload''
                 else JSON_parse P (utf8_toString P (concat cs)), [])"
  unfolding readJsonBody_def using assms
  by (simp add: readJsonBody_loop_within Let_def)

subsection \<open>The gateway\<close>

lemma handler_authenticated:
  assumes "req_pathname req = Inr ''/api/message''" and "req_method req = ''POST''"
    and "env_VM_INTERNAL_SECRET e = Some secret" and "secret \<noteq> []"
    and "req_authorization req = Some (''Bearer '' @ secret)"
  shows "handleFirebaseWebhookRequest P e W req =
           (case readJsonBody P (req_events req) MAX_PAYLOAD_BYTES of
              None \<Rightarrow> ([Body_read], Pending)
            | Some (Inl err, during) \<Rightarrow>
                (Body_read # during @ [Reply 400 (error_body err)], Returned True)
            | Some (Inr body, during) \<Rightarrow>
                (Body_read # during @ fst (on_body P e W body), snd (on_body P e W body)))"
  using assms
  by (simp add: handleFirebaseWebhookRequest_def split_beta split: option.splits sum.splits prod.splits)

lemma handler_not_authenticated:
  assumes "\<not> (\<exists>secret. env_VM_INTERNAL_SECRET e = Some secret \<and> secret \<noteq> [] \<and>
              req_authorization req = Some (''Bearer '' @ secret))"
  shows "Body_read \<notin> set (fst (handleFirebaseWebhookRequest P e W req)) \<and>
         Reply 200 (JObj [(''status'', JStr ''processing'')]) \<notin> set (fst (handleFirebaseWebhookRequest P e W req))"
  using assms
  by (auto simp: handleFirebaseWebhookRequest_def error_body_def split: sum.splits option.splits)



text \<open>
  What the handler does when the read fails, on an authenticated POST to
  \<open>/api/message\<close> with the cap of 1 MiB. When the chunks received add up to more
  than the cap, the read resolves \<open>payload too large\<close> and destroys the request; the
  handler then writes its 400, and does nothing else (no call to the generation client).
  When the body ends within the cap and is empty or white space, it writes 400
  \<open>empty payload\<close>; when the body ends within the cap and the parser rejects it, it
  writes 400 with the parser's message.
\<close>

lemma body_read_failures:
  assumes "req_pathname req = Inr ''/api/message''" and "req_method req = ''POST''"
    and "env_VM_INTERNAL_SECRET e = Some secret" and "secret \<noteq> []"
    and "req_authorization req = Some (''Bearer '' @ secret)"
  shows
  "MAX_PAYLOAD_BYTES = 1048576 \<and>
   (req_events req = map Data cs @ rest \<and> MAX_PAYLOAD_BYTES < length (concat cs) \<longrightarrow>
      handleFirebaseWebhookRequest P e W req =
        ([Body_read, Request_destroyed, Reply 400 (error_body ''payload too large'')],
         Returned True)) \<and>
   (req_events req = map Data cs @ End # rest \<and> length (concat cs) \<le> MAX_PAYLOAD_BYTES \<and>
    trim (utf8_toString P (concat cs)) = [] \<longrightarrow>
      handleFirebaseWebhookRequest P e W req =
        ([Body_read, Reply 400 (error_body ''empty payload'')], Returned True)) \<and>
   (req_events req = map Data cs @ End # rest \<and> length (concat cs) \<le> MAX_PAYLOAD_BYTES \<and>
    trim (utf8_toString P (concat cs)) \<noteq> [] \<and>
    JSON_parse P (utf8_toString P (concat cs)) = Inl syntax_error \<longrightarrow>
      handleFirebaseWebhookRequest P e W req =
        ([Body_read, Reply 400 (error_body syntax_error)], Returned True))"
proof (intro conjI impI)
  show "MAX_PAYLOAD_BYTES = 1048576"
    by (simp add: MAX_PAYLOAD_BYTES_def)
next
  assume "req_events req = map Data cs @ rest \<and> MAX_PAYLOAD_BYTES < length (concat cs)"
  then have "readJsonBody P (req_events req) MAX_PAYLOAD_BYTES =
      Some (Inl ''payload too large'', [Request_destroyed])"
    by (simp add: readJsonBody_too_large)
  then show "handleFirebaseWebhookRequest P e W req =
        ([Body_read, Request_destroyed, Reply 400 (error_body ''payload too large'')],
         Returned True)"
    by (simp add: handler_authenticated [OF assms])
next
  assume "req_events req = map Data cs @ End # rest \<and> length (concat cs) \<le> MAX_PAYLOAD_BYTES \<and>
    trim (utf8_toString P (concat cs)) = []"
  then have "readJsonBody P (req_events req) MAX_PAYLOAD_BYTES = Some (Inl ''empty payload'', [])"
    by (simp add: readJsonBody_complete)
  then show "handleFirebaseWebhookRequest P e W req =
        ([Body_read, Reply 400 (error_body ''empty payload'')], Returned True)"
    by (simp add: handler_authenticated [OF assms])
next
  assume "req_events req = map Data cs @ End # rest \<and> length (concat cs) \<le> MAX_PAYLOAD_BYTES \<and>
    trim (utf8_toString P (concat cs)) \<noteq> [] \<and>
    JSON_parse P (utf8_toString P (concat cs)) = Inl syntax_error"
  then have "readJsonBody P (req_events req) MAX_PAYLOAD_BYTES = Some (Inl syntax_error, [])"
    by (simp add: readJsonBody_complete)
  then show "handleFirebaseWebhookRequest P e W req =
        ([Body_read, Reply 400 (error_body syntax_error)], Returned True)"
    by (simp add: handler_authenticated [OF assms])
qed

lemma trim_blanks: "trim ''  '' = []"
  by code_simp

lemma trim_truncated: \<open>trim ''{"a'' \<noteq> []\<close>
  by code_simp

lemma parsed_truncated: \<open>read_json ''{"a'' = Inl ''Unexpected token in JSON''\<close>
  by code_simp

lemma body_read_failures_examples:
  \<open>handleFirebaseWebhookRequest ascii_platform test_env W (test_request [''  '']) =
     ([Body_read, Reply 400 (error_body ''empty payload'')], Returned True) \<and>
   handleFirebaseWebhookRequest ascii_platform test_env W (test_request [''{"a'']) =
     ([Body_read, Reply 400 (error_body ''Unexpected token in JSON'')], Returned True)\<close>
proof -
  have 2: "handleFirebaseWebhookRequest ascii_platform test_env W (test_request [''  '']) =
     ([Body_read, Reply 400 (error_body ''empty payload'')], Returned True)"
    using body_read_failures [where req = "test_request [''  '']"
          and e = test_env and secret = "''sec_test_integration''"
          and cs = "[''  '']" and rest = "[]" and P = ascii_platform and W = W]
    by (simp add: test_request_def test_env_def ascii_platform_def trim_blanks)
  have 3: \<open>handleFirebaseWebhookRequest ascii_platform test_env W (test_request [''{"a'']) =
     ([Body_read, Reply 400 (error_body ''Unexpected token in JSON'')], Returned True)\<close>
    using body_read_failures [where req = \<open>test_request [''{"a'']\<close>
          and e = test_env and secret = "''sec_test_integration''"
          and cs = \<open>[''{"a'']\<close> and rest = "[]" and P = ascii_platform and W = W
          and syntax_error = "''Unexpected token in JSON''"]
    by (simp add: test_request_def test_env_def ascii_platform_def trim_truncated parsed_truncated)
  from 2 3 show ?thesis by simp
qed

lemma oversized_body_reply_is_lost:
  assumes "req_pathname req = Inr ''/api/message''" and "req_method req = ''POST''"
    and "env_VM_INTERNAL_SECRET e = Some secret" and "secret \<noteq> []"
    and "req_authorization req = Some (''Bearer '' @ secret)"
    and "req_events req = map Data cs @ rest" and "MAX_PAYLOAD_BYTES < length (concat cs)"
  shows "client_receives (fst (handleFirebaseWebhookRequest P e W req)) = None"
proof -
  have "readJsonBody P (req_events req) MAX_PAYLOAD_BYTES =
      Some (Inl ''payload too large'', [Request_destroyed])"
    using assms(6,7) by (simp add: readJsonBody_too_large)
  then show ?thesis
    by (simp add: handler_authenticated [OF assms(1-5)])
qed

text \<open>
  C7. The claim fails on a body over the cap. On an authenticated POST whose body is one
  chunk of 1048577 bytes, \<^verbatim>\<open>readJsonBody\<close> resolves \<open>payload too large\<close> and calls
  \<^verbatim>\<open>req.destroy()\<close> before the handler continues; the handler then writes
  400 \<open>payload too large\<close> to a response whose socket is destroyed already, so the
  caller receives no response at all. (The generation client is not called; the empty
  and the malformed body do get their 400, lemma \<open>body_read_failures\<close>.)
\<close>

theorem oversized_body_gets_no_reply:
  "handleFirebaseWebhookRequest ascii_platform test_env W
       (test_request [replicate 1048577 (CHR ''a'')]) =
     ([Body_read, Request_destroyed, Reply 400 (error_body ''payload too large'')],
      Returned True) \<and>
   client_receives (fst (handleFirebaseWebhookRequest ascii_platform test_env W
       (test_request [replicate 1048577 (CHR ''a'')]))) = None"
proof -
  have "handleFirebaseWebhookRequest ascii_platform test_env W
       (test_request [replicate 1048577 (CHR ''a'')]) =
     ([Body_read, Request_destroyed, Reply 400 (error_body ''payload too large'')],
      Returned True)"
    using body_read_failures [where req = "test_request [replicate 1048577 (CHR ''a'')]"
          and e = test_env and secret = "''sec_test_integration''"
          and cs = "[replicate 1048577 (CHR ''a'')]" and rest = "[End]"
          and P = ascii_platform and W = W]
    by (simp add: test_request_def test_env_def)
  then show ?thesis by simp
qed

subsection \<open>Validation\<close>

lemma on_body_invalid_messageId:
  assumes "body \<noteq> JNull"
    and "\<not> (truthy (get_prop ''messageId'' body) \<and> is_string (get_prop ''messageId'' body))"
  shows "on_body P e W body = ([Reply 400 (error_body ''Missing or invalid messageId'')], Returned True)"
  using assms by (cases body) (simp_all add: on_body_def)

lemma on_body_invalid_text:
  assumes "body \<noteq> JNull"
    and "truthy (get_prop ''messageId'' body) \<and> is_string (get_prop ''messageId'' body)"
    and "\<not> (truthy (get_prop ''text'' body) \<and> is_string (get_prop ''text'' body))"
  shows "on_body P e W body = ([Reply 400 (error_body ''Missing or invalid text'')], Returned True)"
  using assms by (cases body) (simp_all add: on_body_def)

lemma on_body_valid:
  assumes "body \<noteq> JNull"
    and "truthy (get_prop ''messageId'' body) \<and> is_string (get_prop ''messageId'' body)"
    and "truthy (get_prop ''text'' body) \<and> is_string (get_prop ''text'' body)"
  shows "on_body P e W body =
           (Reply 200 (JObj [(''status'', JStr ''processing'')]) #
              fst (processMessage P e W
                     \<lparr>tr_messageId = string_value (get_prop ''messageId'' body),
                      tr_text = string_value (get_prop ''text'' body),
                      tr_conversationHistory = get_prop ''conversationHistory'' body\<rparr>),
            Returned True)"
  using assms by (cases body) (simp_all add: on_body_def split_beta)

text \<open>
  On an authenticated request whose body parsed to a value other than \<^verbatim>\<open>null\<close>, a
  missing, empty or non-string \<open>messageId\<close> gives 400 naming \<open>messageId\<close>, and
  otherwise a missing, empty or non-string \<open>text\<close> gives 400 naming \<open>text\<close>; the read
  and the reply are all the handler does.
\<close>

lemma invalid_fields_are_400:
  assumes "req_pathname req = Inr ''/api/message''" and "req_method req = ''POST''"
    and "env_VM_INTERNAL_SECRET e = Some secret" and "secret \<noteq> []"
    and "req_authorization req = Some (''Bearer '' @ secret)"
    and "readJsonBody P (req_events req) MAX_PAYLOAD_BYTES = Some (Inr body, [])"
    and "body \<noteq> JNull"
  shows
  "(\<not> (truthy (get_prop ''messageId'' body) \<and> is_string (get_prop ''messageId'' body)) \<longrightarrow>
      handleFirebaseWebhookRequest P e W req =
        ([Body_read, Reply 400 (error_body ''Missing or invalid messageId'')], Returned True)) \<and>
   (truthy (get_prop ''messageId'' body) \<and> is_string (get_prop ''messageId'' body) \<and>
    \<not> (truthy (get_prop ''text'' body) \<and> is_string (get_prop ''text'' body)) \<longrightarrow>
      handleFirebaseWebhookRequest P e W req =
        ([Body_read, Reply 400 (error_body ''Missing or invalid text'')], Returned True))"
  using assms(6,7)
  by (simp add: handler_authenticated [OF assms(1-5)] on_body_invalid_messageId on_body_invalid_text)

lemma parsed_null: "read_json ''null'' = Inr JNull"
  by code_simp

lemma trim_null: "trim ''null'' = ''null''"
  by code_simp

text \<open>
  C8. The claim fails on the body \<^verbatim>\<open>null\<close>, which is valid JSON: the handler
  authenticates, reads and parses the body, and then \<^verbatim>\<open>body.messageId\<close> throws a
  TypeError. The handler's promise is rejected; no 400 is written (and nothing else).
\<close>

theorem null_body_throws:
  "handleFirebaseWebhookRequest ascii_platform test_env W (test_request [''null'']) =
     ([Body_read], Threw (Error_instance ''Cannot read properties of null (reading 'messageId')''))"
proof -
  have "readJsonBody ascii_platform (req_events (test_request [''null''])) MAX_PAYLOAD_BYTES =
      Some (Inr JNull, [])"
    using readJsonBody_complete [of "[''null'']" MAX_PAYLOAD_BYTES ascii_platform "[]"]
    by (simp add: test_request_def MAX_PAYLOAD_BYTES_def ascii_platform_def trim_null parsed_null)
  then show ?thesis
    using handler_authenticated [of "test_request [''null'']" test_env "''sec_test_integration''"
        ascii_platform W]
    by (simp add: test_request_def test_env_def on_body_def)
qed

subsection \<open>One delivery per accepted trigger\<close>

lemma accepted_is_authenticated_and_valid:
  assumes "Reply 200 (JObj [(''status'', JStr ''processing'')]) \<in> set (fst (handleFirebaseWebhookRequest P e W req))"
    and "readJsonBody P (req_events req) MAX_PAYLOAD_BYTES = Some (Inr body, [])"
  shows "fst (handleFirebaseWebhookRequest P e W req) =
           Body_read # Reply 200 (JObj [(''status'', JStr ''processing'')]) #
             fst (processMessage P e W
                    \<lparr>tr_messageId = string_value (get_prop ''messageId'' body),
                     tr_text = string_value (get_prop ''text'' body),
                     tr_conversationHistory = get_prop ''conversationHistory'' body\<rparr>)"
proof -
  obtain secret where s: "env_VM_INTERNAL_SECRET e = Some secret" "secret \<noteq> []"
      "req_authorization req = Some (''Bearer '' @ secret)"
    using assms(1) handler_not_authenticated [of e req P W] by blast
  have route: "req_pathname req = Inr ''/api/message'' \<and> req_method req = ''POST''"
    using assms(1)
    by (auto simp: handleFirebaseWebhookRequest_def split: sum.splits if_splits)
  have h: "handleFirebaseWebhookRequest P e W req =
      (Body_read # fst (on_body P e W body), snd (on_body P e W body))"
    using handler_authenticated [of req e secret P W] route s assms(2) by simp
  have nn: "body \<noteq> JNull"
  proof
    assume "body = JNull"
    then have "fst (on_body P e W body) = []" by (simp add: on_body_def)
    with assms(1) h show False by simp
  qed
  have in_body: "Reply 200 (JObj [(''status'', JStr ''processing'')]) \<in> set (fst (on_body P e W body))"
    using assms(1) h by simp
  have v1: "truthy (get_prop ''messageId'' body) \<and> is_string (get_prop ''messageId'' body)"
  proof (rule ccontr)
    assume "\<not> (truthy (get_prop ''messageId'' body) \<and> is_string (get_prop ''messageId'' body))"
    then have "on_body P e W body =
        ([Reply 400 (error_body ''Missing or invalid messageId'')], Returned True)"
      by (rule on_body_invalid_messageId [OF nn])
    with in_body show False by (simp add: error_body_def)
  qed
  have v2: "truthy (get_prop ''text'' body) \<and> is_string (get_prop ''text'' body)"
  proof (rule ccontr)
    assume "\<not> (truthy (get_prop ''text'' body) \<and> is_string (get_prop ''text'' body))"
    then have "on_body P e W body =
        ([Reply 400 (error_body ''Missing or invalid text'')], Returned True)"
      by (rule on_body_invalid_text [OF nn v1])
    with in_body show False by (simp add: error_body_def)
  qed
  show ?thesis
    using h on_body_valid [OF nn v1 v2, of P e W] by simp
qed

lemma accepted_trigger_deliveries:
  assumes "Reply 200 (JObj [(''status'', JStr ''processing'')]) \<in> set (fst (handleFirebaseWebhookRequest P e W req))"
    and "readJsonBody P (req_events req) MAX_PAYLOAD_BYTES = Some (Inr body, [])"
    and "spread_or_empty (get_prop ''conversationHistory'' body) = Inr history"
    and "callLlmProxy P e (llm_proxy W)
           (build_options history (string_value (get_prop ''text'' body))) = Inr outcome"
  shows "map app_body (deliveries (fst (handleFirebaseWebhookRequest P e W req))) =
           [DeliveryPayload_of (string_value (get_prop ''messageId'' body)) outcome]"
proof -
  let ?request = "\<lparr>tr_messageId = string_value (get_prop ''messageId'' body),
                     tr_text = string_value (get_prop ''text'' body),
                     tr_conversationHistory = get_prop ''conversationHistory'' body\<rparr>"
  have "fst (processMessage P e W ?request) =
           [Llm_call (llm_call e (build_options history (tr_text ?request))),
            Delivery \<lparr>app_url = APP_SERVER_URL e @ ''/api/response'',
                      app_authorization = Bearer (env_VM_INTERNAL_SECRET e),
                      app_body = DeliveryPayload_of (tr_messageId ?request) outcome\<rparr>]"
    using assms(3,4) by (intro processMessage_effects) simp_all
  then show ?thesis
    by (simp add: accepted_is_authenticated_and_valid [OF assms(1,2)])
qed

text \<open>
  For every request the gateway accepts (it answered 200, so the request passed
  authentication, parsing and validation) and whose \<open>conversationHistory\<close> can be
  spread (absent, falsy, an array or a string), the generation call returns an outcome
  and the handler and its background task make exactly one delivery call: the payload the
  spec gives for that outcome, success, billing error or generic error.
\<close>

lemma one_delivery_per_accepted_trigger:
  assumes "Reply 200 (JObj [(''status'', JStr ''processing'')]) \<in> set (fst (handleFirebaseWebhookRequest P e W req))"
    and "readJsonBody P (req_events req) MAX_PAYLOAD_BYTES = Some (Inr body, [])"
    and "spread_or_empty (get_prop ''conversationHistory'' body) = Inr history"
  shows "\<exists>outcome.
           callLlmProxy P e (llm_proxy W)
             (build_options history (string_value (get_prop ''text'' body))) = Inr outcome \<and>
           map app_body (deliveries (fst (handleFirebaseWebhookRequest P e W req))) =
             [DeliveryPayload_of (string_value (get_prop ''messageId'' body)) outcome]"
proof -
  obtain outcome where o: "callLlmProxy P e (llm_proxy W)
             (build_options history (string_value (get_prop ''text'' body))) = Inr outcome"
    using callLlmProxy_returns by blast
  show ?thesis
    using o accepted_trigger_deliveries [OF assms o] by (intro exI [of _ outcome]) simp
qed


lemma handler_accepts:
  assumes "req_pathname req = Inr ''/api/message''" and "req_method req = ''POST''"
    and "env_VM_INTERNAL_SECRET e = Some secret" and "secret \<noteq> []"
    and "req_authorization req = Some (''Bearer '' @ secret)"
    and "readJsonBody P (req_events req) MAX_PAYLOAD_BYTES = Some (Inr body, [])"
    and "body \<noteq> JNull"
    and "truthy (get_prop ''messageId'' body) \<and> is_string (get_prop ''messageId'' body)"
    and "truthy (get_prop ''text'' body) \<and> is_string (get_prop ''text'' body)"
  shows "handleFirebaseWebhookRequest P e W req =
           (Body_read # Reply 200 (JObj [(''status'', JStr ''processing'')]) #
              fst (processMessage P e W
                     \<lparr>tr_messageId = string_value (get_prop ''messageId'' body),
                      tr_text = string_value (get_prop ''text'' body),
                      tr_conversationHistory = get_prop ''conversationHistory'' body\<rparr>),
            Returned True)"
  using assms(6)
  by (simp add: handler_authenticated [OF assms(1-5)] on_body_valid [OF assms(7-9)])

lemma parsed_hello:
  \<open>read_json ''{"messageId":"m1","text":"Hello"}'' =
     Inr (JObj [(''messageId'', JStr ''m1''), (''text'', JStr ''Hello'')])\<close>
  by code_simp

lemma trim_hello: \<open>trim ''{"messageId":"m1","text":"Hello"}'' \<noteq> []\<close>
  by code_simp

lemma read_hello:
  \<open>readJsonBody ascii_platform (req_events (test_request [''{"messageId":"m1","text":"Hello"}'']))
      MAX_PAYLOAD_BYTES = Some (Inr (JObj [(''messageId'', JStr ''m1''), (''text'', JStr ''Hello'')]), [])\<close>
  using readJsonBody_complete [of \<open>[''{"messageId":"m1","text":"Hello"}'']\<close> MAX_PAYLOAD_BYTES
      ascii_platform "[]"] trim_hello
  by (simp add: test_request_def MAX_PAYLOAD_BYTES_def ascii_platform_def parsed_hello)

lemma hello_accepted:
  \<open>handleFirebaseWebhookRequest ascii_platform test_env W
      (test_request [''{"messageId":"m1","text":"Hello"}'']) =
     (Body_read # Reply 200 (JObj [(''status'', JStr ''processing'')]) #
        fst (processMessage ascii_platform test_env W
               \<lparr>tr_messageId = ''m1'', tr_text = ''Hello'', tr_conversationHistory = None\<rparr>),
      Returned True)\<close>
  using handler_accepts [where req = \<open>test_request [''{"messageId":"m1","text":"Hello"}'']\<close>
      and e = test_env and secret = "''sec_test_integration''" and P = ascii_platform and W = W,
      OF _ _ _ _ _ read_hello]
  by (simp add: test_request_def test_env_def is_string_def string_value_def)

lemma silent_stream:
  "parseSSEStream ascii_platform (http_reply 200 [''data: [DONE]\<newline>\<newline>'']) =
     Inr (LlmResponse [] None)"
proof -
  have "parseSSEStream ascii_platform ((http_reply 200 [])\<lparr>resp_body := Some (Body_stream
        [''data: [DONE]\<newline>\<newline>''] Stream_done)\<rparr>) = Inr (LlmResponse [] None)"
    unfolding parseSSEStream_concat by code_simp
  then show ?thesis
    by (simp add: parseSSEStream_def http_reply_def)
qed

lemma silent_outcome:
  "callLlmProxy ascii_platform test_env (llm_proxy silent_world) options = Inr (LlmResponse [] None)"
  by (rule callLlmProxy_2xx [where response = "the_response" for the_response, OF _ _ silent_stream])
     (simp_all add: silent_world_def response_ok_def http_reply_def)

text \<open>
  C1. The claim's exception fails on this handler: when the generation succeeds with
  empty content (the stream carried nothing but the sentinel), the background task still
  makes its delivery call, with empty content and the success metadata, where the claim
  says that no delivery call is made. The handler of the agent dispatcher
  (src/unnamed/part_004, lines 189 to 193) returns without a delivery on an empty reply;
  this one has no such test.
\<close>

theorem empty_content_is_delivered:
  \<open>map app_body (deliveries (fst (handleFirebaseWebhookRequest ascii_platform test_env silent_world
       (test_request [''{"messageId":"m1","text":"Hello"}''])))) =
     [\<lparr>vr_messageId = ''m1'', vr_content = [],
       vr_metadata = Some \<lparr>md_errorType = None, md_action = None,
                           md_model = Some ''claude-sonnet-4-20250514'', md_tokens = None\<rparr>\<rparr>]\<close>
proof -
  have \<open>Reply 200 (JObj [(''status'', JStr ''processing'')]) \<in>
      set (fst (handleFirebaseWebhookRequest ascii_platform test_env silent_world
        (test_request [''{"messageId":"m1","text":"Hello"}''])))\<close>
    by (simp add: hello_accepted)
  from accepted_trigger_deliveries [OF this read_hello, of "[]" "LlmResponse [] None"]
  show ?thesis
    by (simp add: spread_or_empty_def silent_outcome DeliveryPayload_of_def string_value_def)
qed

lemma one_delivery_per_accepted_trigger_example:
  \<open>map app_body (deliveries (fst (handleFirebaseWebhookRequest ascii_platform test_env dialect_B_world
       (test_request [''{"messageId":"m1","text":"Hello"}''])))) =
     [\<lparr>vr_messageId = ''m1'', vr_content = ''Hi there'',
       vr_metadata = Some \<lparr>md_errorType = None, md_action = None,
                           md_model = Some ''claude-sonnet-4-20250514'',
                           md_tokens = Some (JNum 2)\<rparr>\<rparr>]\<close>
proof -
  have a: \<open>Reply 200 (JObj [(''status'', JStr ''processing'')]) \<in>
      set (fst (handleFirebaseWebhookRequest ascii_platform test_env dialect_B_world
        (test_request [''{"messageId":"m1","text":"Hello"}''])))\<close>
    by (simp add: hello_accepted)
  have h: "spread_or_empty (get_prop ''conversationHistory''
      (JObj [(''messageId'', JStr ''m1''), (''text'', JStr ''Hello'')])) = Inr []"
    by (simp add: spread_or_empty_def)
  from one_delivery_per_accepted_trigger [OF a read_hello h]
  show ?thesis
    by (simp add: dialect_B_outcome DeliveryPayload_of_def string_value_def)
qed

lemma parsed_bad_history:
  \<open>read_json ''{"messageId":"m1","text":"Hello","conversationHistory":42}'' =
     Inr (JObj [(''messageId'', JStr ''m1''), (''text'', JStr ''Hello''),
                (''conversationHistory'', JNum 42)])\<close>
  by code_simp

lemma trim_bad_history:
  \<open>trim ''{"messageId":"m1","text":"Hello","conversationHistory":42}'' \<noteq> []\<close>
  by code_simp

text \<open>
  The field \<open>conversationHistory\<close> is not validated, and on a truthy value that is not
  iterable the background task throws before it calls the proxy. The request is
  acknowledged and nothing is delivered.
\<close>

lemma non_iterable_history_no_delivery:
  \<open>handleFirebaseWebhookRequest ascii_platform test_env W
      (test_request [''{"messageId":"m1","text":"Hello","conversationHistory":42}'']) =
     ([Body_read, Reply 200 (JObj [(''status'', JStr ''processing'')])], Returned True)\<close>
proof -
  have r: \<open>readJsonBody ascii_platform
      (req_events (test_request [''{"messageId":"m1","text":"Hello","conversationHistory":42}'']))
      MAX_PAYLOAD_BYTES =
        Some (Inr (JObj [(''messageId'', JStr ''m1''), (''text'', JStr ''Hello''),
                         (''conversationHistory'', JNum 42)]), [])\<close>
    using readJsonBody_complete [of
        \<open>[''{"messageId":"m1","text":"Hello","conversationHistory":42}'']\<close> MAX_PAYLOAD_BYTES
        ascii_platform "[]"] trim_bad_history
    by (simp add: test_request_def MAX_PAYLOAD_BYTES_def ascii_platform_def parsed_bad_history)
  show ?thesis
    using handler_accepts [where
        req = \<open>test_request [''{"messageId":"m1","text":"Hello","conversationHistory":42}'']\<close>
        and e = test_env and secret = "''sec_test_integration''" and P = ascii_platform and W = W,
        OF _ _ _ _ _ r]
    by (simp add: test_request_def test_env_def is_string_def string_value_def
        processMessage_def spread_or_empty_def)
qed

end
